theory Spec2Isabelle
  imports Complex_Main
begin

section \<open>Common ground: Python errors, strings, numbers\<close>

text \<open>
  The scripts are Python. Floats are idealised as real numbers (no rounding, no
  overflow); an exception that ends the script is a value of \<open>py_error\<close>
  (\<open>LibraryError\<close> for one raised inside a library that is a parameter here);
  a dictionary-like configuration section is a finite association list read
  through \<open>map_of\<close>.
\<close>

datatype py_error =
    AttributeError
  | KeyError string
  | ValueError
  | TypeError
  | NameError string
  | IndexError
  | LibraryError string
  | OutsideModel string

text \<open>\<open>str.upper\<close> on ASCII text: the letters a-z move to A-Z, every other byte stays.\<close>

definition upper_char :: "char \<Rightarrow> char" where
  "upper_char c =
     (case map_of (zip ''abcdefghijklmnopqrstuvwxyz'' ''ABCDEFGHIJKLMNOPQRSTUVWXYZ'') c of
        None \<Rightarrow> c
      | Some u \<Rightarrow> u)"

definition upper :: "string \<Rightarrow> string" where
  "upper s = map upper_char s"

section \<open>shabanipy/constants.py\<close>

text \<open>The module's namespace: the seven assignments, in source order.\<close>

definition constants :: "(string \<times> real) list" where
  "constants =
     [(''FOURTEEN_TESLA_AMPS_PER_TESLA'', 8.341),
      (''VECTOR9_AMPS_PER_TESLA_X'', 35.705),
      (''VECTOR9_AMPS_PER_TESLA_Y'', 72.575),
      (''VECTOR9_AMPS_PER_TESLA_Z'', 18.203),
      (''VECTOR10_AMPS_PER_TESLA_X'', 35.927),
      (''VECTOR10_AMPS_PER_TESLA_Y'', 74.548),
      (''VECTOR10_AMPS_PER_TESLA_Z'', 18.0110)]"

text \<open>
  \<open>getattr(import_module("shabanipy.constants"), name)\<close>. Besides its seven assignments
  the module object resolves the attributes every module has: \<open>__doc__\<close> (here the
  string of line 1), \<open>__name__\<close>, \<open>__file__\<close>, and so on, and the methods of the module
  type. Their names are lower-case words between double underscores and their values
  are no numbers. Which of those names resolve is the parameter \<open>resolves\<close>; every
  other name raises AttributeError.
\<close>

datatype attribute = Number real | Module_attribute

definition is_dunder :: "string \<Rightarrow> bool" where
  "is_dunder name =
     (take 2 name = ''__'' \<and> take 2 (rev name) = ''__'' \<and>
      list_all (\<lambda>c. c \<notin> set ''ABCDEFGHIJKLMNOPQRSTUVWXYZ'') name)"

definition getattr_constants :: "(string \<Rightarrow> bool) \<Rightarrow> string \<Rightarrow> py_error + attribute" where
  "getattr_constants resolves name =
     (case map_of constants name of
        Some v \<Rightarrow> Inr (Number v)
      | None \<Rightarrow>
          if is_dunder name \<and> resolves name then Inr Module_attribute
          else Inl AttributeError)"

text \<open>
  The key the fitting script builds (fit_squid_oscillations.py, lines 97-100):
  \<open>f"{config['FRIDGE'].upper()}_AMPS_PER_TESLA_{config['PERP_AXIS'].upper()}"\<close>.
\<close>

definition amps_per_tesla_key :: "string \<Rightarrow> string \<Rightarrow> string" where
  "amps_per_tesla_key fridge axis = upper fridge @ ''_AMPS_PER_TESLA_'' @ upper axis"

definition lookup_amps_per_t ::
  "(string \<Rightarrow> bool) \<Rightarrow> string \<Rightarrow> string \<Rightarrow> py_error + attribute" where
  "lookup_amps_per_t resolves fridge axis =
     getattr_constants resolves (amps_per_tesla_key fridge axis)"

section \<open>numpy reductions on one-dimensional arrays\<close>

text \<open>
  \<open>np.amax\<close>, \<open>np.max\<close> and \<open>np.min\<close> raise ValueError on an array without elements
  and fold the elements otherwise.
\<close>

fun amax :: "real list \<Rightarrow> py_error + real" where
  "amax [] = Inl ValueError"
| "amax (x # xs) = Inr (fold max xs x)"

fun amin :: "real list \<Rightarrow> py_error + real" where
  "amin [] = Inl ValueError"
| "amin (x # xs) = Inr (fold min xs x)"

section \<open>Python strings and the configuration section\<close>

text \<open>\<open>str(i)\<close> for a non-negative integer, as \<open>f"DATAPATH{i}"\<close> formats the index.\<close>

definition digit_char :: "nat \<Rightarrow> char" where
  "digit_char d = ''0123456789'' ! d"

fun str_nat :: "nat \<Rightarrow> string" where
  "str_nat n =
     (if n < 10 then [digit_char n]
      else str_nat (n div 10) @ [digit_char (n mod 10)])"

declare str_nat.simps [simp del]

text \<open>\<open>s.endswith(suffix)\<close>; with a tuple of suffixes the script's test is a disjunction.\<close>

definition endswith :: "string \<Rightarrow> string \<Rightarrow> bool" where
  "endswith s suffix = (take (length suffix) (rev s) = rev suffix)"

text \<open>
  \<open>s.split(sep)\<close> for a non-empty separator: the pieces between the occurrences of
  \<open>sep\<close>, found from the left without overlap. \<open>acc\<close> holds the current piece,
  reversed.
\<close>

fun split_acc :: "string \<Rightarrow> string \<Rightarrow> string \<Rightarrow> string list" where
  "split_acc sep [] acc = [rev acc]"
| "split_acc sep (c # cs) acc =
     (if take (length sep) (c # cs) = sep
      then rev acc # split_acc sep (drop (length sep - 1) cs) []
      else split_acc sep cs (c # acc))"

definition split :: "string \<Rightarrow> string \<Rightarrow> py_error + string list" where
  "split s sep = (if sep = [] then Inl ValueError else Inr (split_acc sep s []))"

text \<open>\<open>s.replace(old, new)\<close> for single characters.\<close>

definition replace_char :: "string \<Rightarrow> char \<Rightarrow> char \<Rightarrow> string" where
  "replace_char s old new = map (\<lambda>c. if c = old then new else c) s"

text \<open>
  A configuration section (a \<open>configparser\<close> section proxy) after parsing and
  interpolation: finitely many options, each a string. All reads go through
  \<open>map_of\<close>.
\<close>

type_synonym config = "(string \<times> string) list"

text \<open>\<open>config[key]\<close> raises KeyError when the option is missing.\<close>

definition cfg_item :: "config \<Rightarrow> string \<Rightarrow> py_error + string" where
  "cfg_item cfg key =
     (case map_of cfg key of None \<Rightarrow> Inl (KeyError key) | Some v \<Rightarrow> Inr v)"

text \<open>\<open>config.get(key)\<close> gives None for a missing option, \<open>config.get(key, fallback)\<close> the fallback.\<close>

definition cfg_get :: "config \<Rightarrow> string \<Rightarrow> string option" where
  "cfg_get cfg key = map_of cfg key"

definition cfg_get_fallback :: "config \<Rightarrow> string \<Rightarrow> string \<Rightarrow> string" where
  "cfg_get_fallback cfg key fallback =
     (case map_of cfg key of None \<Rightarrow> fallback | Some v \<Rightarrow> v)"

text \<open>Python's truth value of what \<open>config.get\<close> returns: None and the empty string are false.\<close>

fun truthy :: "string option \<Rightarrow> bool" where
  "truthy None = False"
| "truthy (Some v) = (v \<noteq> [])"

text \<open>
  \<open>config.getfloat(key, fallback)\<close>: the fallback (None when not given) for a missing
  option, ValueError when the text is no float, else the float. The conversion
  \<open>float(text)\<close> is the parameter \<open>parse\<close>.
\<close>

definition cfg_getfloat ::
  "(string \<Rightarrow> real option) \<Rightarrow> config \<Rightarrow> string \<Rightarrow> real option \<Rightarrow> py_error + real option" where
  "cfg_getfloat parse cfg key fallback =
     (case map_of cfg key of
        None \<Rightarrow> Inr fallback
      | Some v \<Rightarrow> (case parse v of None \<Rightarrow> Inl ValueError | Some x \<Rightarrow> Inr (Some x)))"

text \<open>The widest option name: no longer key can be present in the section.\<close>

definition key_width :: "config \<Rightarrow> nat" where
  "key_width cfg = fold max (map (\<lambda>kv. length (fst kv)) cfg) 0"

section \<open>Runs: the effects of a script, in order, and how it ended\<close>

text \<open>
  A run is the list of effects performed so far together with either the exception
  that ended it or a value. \<open>seq\<close> is sequential composition: after an exception
  nothing more happens.
\<close>

type_synonym ('ev, 'a) run = "'ev list \<times> (py_error + 'a)"

definition ok :: "'a \<Rightarrow> ('ev, 'a) run" where
  "ok x = ([], Inr x)"

definition raise :: "py_error \<Rightarrow> ('ev, 'a) run" where
  "raise e = ([], Inl e)"

definition emit :: "'ev \<Rightarrow> ('ev, unit) run" where
  "emit ev = ([ev], Inr ())"

definition lift :: "py_error + 'a \<Rightarrow> ('ev, 'a) run" where
  "lift r = ([], r)"

definition seq :: "('ev, 'a) run \<Rightarrow> ('a \<Rightarrow> ('ev, 'b) run) \<Rightarrow> ('ev, 'b) run" where
  "seq m f =
     (case m of
        (evs, Inl e) \<Rightarrow> (evs, Inl e)
      | (evs, Inr x) \<Rightarrow> (case f x of (evs', r) \<Rightarrow> (evs @ evs', r)))"

text \<open>The same for computations without effects.\<close>

definition bind :: "py_error + 'a \<Rightarrow> ('a \<Rightarrow> py_error + 'b) \<Rightarrow> py_error + 'b" where
  "bind m f = (case m of Inl e \<Rightarrow> Inl e | Inr x \<Rightarrow> f x)"

fun traverse :: "('a \<Rightarrow> py_error + 'b) \<Rightarrow> 'a list \<Rightarrow> py_error + 'b list" where
  "traverse f [] = Inr []"
| "traverse f (x # xs) =
     (case f x of
        Inl e \<Rightarrow> Inl e
      | Inr y \<Rightarrow> (case traverse f xs of Inl e \<Rightarrow> Inl e | Inr ys \<Rightarrow> Inr (y # ys)))"

section \<open>numpy on arrays of reals\<close>

text \<open>
  Arrays hold reals (or complex numbers). Where numpy would produce \<open>inf\<close> or \<open>nan\<close>
  (a division by zero, which only warns) or would broadcast arrays of different
  shapes, the computation leaves the model: it ends with \<open>OutsideModel\<close>, which
  stands for no Python exception.
\<close>

definition divide_scalar :: "'a::field list list \<Rightarrow> 'a option \<Rightarrow> py_error + 'a list list" where
  "divide_scalar xss d =
     (case d of
        None \<Rightarrow> Inl TypeError
      | Some c \<Rightarrow> if c = 0 then Inl (OutsideModel ''division by zero'')
                  else Inr (map (map (\<lambda>x. x / c)) xss))"

definition divide_float :: "real \<Rightarrow> real option \<Rightarrow> py_error + real" where
  "divide_float x d =
     (case d of
        None \<Rightarrow> Inl TypeError
      | Some c \<Rightarrow> if c = 0 then Inl (OutsideModel ''division by zero'') else Inr (x / c))"

definition divide_arrays :: "'a::field list list \<Rightarrow> 'a list list \<Rightarrow> py_error + 'a list list" where
  "divide_arrays xss yss =
     (if map length xss \<noteq> map length yss then Inl (OutsideModel ''shapes differ'')
      else if 0 \<in> set (concat yss) then Inl (OutsideModel ''division by zero'')
      else Inr (map2 (map2 (\<lambda>x y. x / y)) xss yss))"

text \<open>
  \<open>np.gradient(f, axis=-1)\<close> with unit spacing: central differences inside, one-sided
  differences at both ends; a row shorter than two samples raises ValueError.
\<close>

fun gradient_inner :: "'a::field list \<Rightarrow> 'a list" where
  "gradient_inner (a # b # c # xs) = (c - a) / 2 # gradient_inner (b # c # xs)"
| "gradient_inner xs = []"

definition gradient_row :: "'a::field list \<Rightarrow> py_error + 'a list" where
  "gradient_row f =
     (if length f < 2 then Inl ValueError
      else Inr ((f ! 1 - f ! 0) # gradient_inner f @ [f ! (length f - 1) - f ! (length f - 2)]))"

definition gradient :: "'a::field list list \<Rightarrow> py_error + 'a list list" where
  "gradient rows = traverse gradient_row rows"

text \<open>\<open>np.abs\<close> of a complex array: the moduli, kept in the complex array type.\<close>

definition np_abs :: "complex list list \<Rightarrow> complex list list" where
  "np_abs zss = map (map (\<lambda>z. of_real (cmod z))) zss"

text \<open>\<open>np.unique\<close>: the distinct values of the flattened array, ascending.\<close>

definition unique :: "real list list \<Rightarrow> real list" where
  "unique xss = sort (remdups (concat xss))"

text \<open>
  \<open>np.rint\<close> rounds to the nearest integer, ties to the even one. \<open>round(x)\<close> of a
  float does the same, and \<open>round(x, d)\<close> of a numpy float is
  \<open>rint(x * 10^d) / 10^d\<close>.
\<close>

definition rint :: "real \<Rightarrow> int" where
  "rint x =
     (let f = \<lfloor>x\<rfloor>; d = x - of_int f
      in if d < 1 / 2 then f
         else if 1 / 2 < d then f + 1
         else if even f then f else f + 1)"

definition np_round :: "real \<Rightarrow> nat \<Rightarrow> real" where
  "np_round x d = of_int (rint (x * 10 ^ d)) / 10 ^ d"

text \<open>\<open>np.degrees\<close>.\<close>

definition degrees :: "real \<Rightarrow> real" where
  "degrees x = x * 180 / pi"

section \<open>scripts/jj/fraunhofer/inplane.py\<close>

text \<open>
  The command line: \<open>--align\<close> and \<open>--debug\<close>. The configuration section is already
  loaded (\<open>load_config\<close> is not among the sources).
\<close>

record inplane_args =
  align :: bool
  debug :: bool

text \<open>
  What the script imports from \<open>shabanipy\<close>, numpy and the standard library without the
  sources being here, as parameters. Each call that can raise returns a sum.
  \<^item> \<open>open_labber path\<close>: entering \<open>with ShaBlabberFile(path) as f\<close>;
  \<^item> \<open>get_data path ch_field_perp ch_bias ch_meas\<close>: \<open>f.get_data(...)\<close> with the two
    swept channels as order, giving \<open>b_perp\<close>, \<open>ibias\<close>, \<open>meas\<close>;
  \<^item> \<open>instrument_config path channel key\<close>:
    \<open>f.get_channel(channel).instrument.config[key]\<close>;
  \<^item> \<open>path_stem\<close>: \<open>Path(p).stem\<close>; \<open>repr_float\<close>: the text of a float in an f-string;
  \<^item> \<open>extract_switching_current ibias dvdi threshold\<close> with \<open>side="positive"\<close>;
  \<^item> \<open>find_fraunhofer_center b_perp ic_p debug\<close>;
  \<^item> \<open>polyfit x y\<close>: \<open>np.polyfit(x, y, 1)\<close>, slope first.
\<close>

record inplane_env =
  parse_float :: "string \<Rightarrow> real option"
  open_labber :: "string \<Rightarrow> py_error + unit"
  get_data :: "string \<Rightarrow> string \<Rightarrow> string \<Rightarrow> string
               \<Rightarrow> py_error + (real list list \<times> real list list \<times> complex list list)"
  instrument_config :: "string \<Rightarrow> string \<Rightarrow> string \<Rightarrow> py_error + real"
  path_stem :: "string \<Rightarrow> string"
  repr_float :: "real \<Rightarrow> string"
  extract_switching_current ::
    "real list list \<Rightarrow> complex list list \<Rightarrow> real option \<Rightarrow> py_error + real list"
  find_fraunhofer_center :: "real list \<Rightarrow> real list \<Rightarrow> bool \<Rightarrow> py_error + real"
  polyfit :: "real list \<Rightarrow> real list \<Rightarrow> py_error + (real \<times> real)"

text \<open>
  The two z-axis labels, which are not ASCII in the source:
  \<open>Delta_V_over_Delta_I\<close> for the gradient branch, \<open>Abs_dV_dI\<close> for the lock-in branch.
\<close>

datatype dvdi_label = Delta_V_over_Delta_I | Abs_dV_dI

text \<open>
  The effects of the script that reach the outside: directories made, what is drawn
  (the arrays and the texts that depend on data; constant axis labels and line styles
  are left out), and the figures saved.
  \<^item> \<open>Plot2d x y z zlabel title_mT stamp vmin vmax\<close>: the false-colour map of a dataset;
  \<^item> \<open>Ax_plot x y\<close>: the switching current drawn over it;
  \<^item> \<open>Axvline x\<close>: the vertical line at the Fraunhofer centre;
  \<^item> \<open>Plot x y\<close>: the centres against the in-plane field;
  \<^item> \<open>Ax_plot_mdeg x y v\<close>: the fitted line, whose legend entry shows the number
    \<open>v\<close> followed by \<open>mdeg\<close> (\<open>None\<close> when numpy's arcsin gives nan);
  \<^item> \<open>Savefig name\<close>; \<open>Show\<close>.
\<close>

datatype inplane_event =
    Mkdir string
  | Plot2d "real list list" "real list list" "complex list list" dvdi_label int string
      "real option" "real option"
  | Ax_plot "real list" "real list"
  | Axvline real
  | Savefig string
  | Plot "real list" "real list"
  | Ax_plot_mdeg "real list" "real list" "real option"
  | Show

text \<open>The script's variables that live across the loop.\<close>

record inplane_state =
  b_inplane :: "real list"
  fraun_center :: "real list"
  outpath :: "string option"

text \<open>
  Lines 41-42: \<open>config.get(f"CH_BIAS{i}", config["CH_BIAS"])\<close>. Python evaluates the
  fallback argument first, so a missing base option raises KeyError whether or not
  the suffixed option exists.
\<close>

definition resolve_channel :: "config \<Rightarrow> string \<Rightarrow> nat \<Rightarrow> py_error + string" where
  "resolve_channel cfg base i =
     bind (cfg_item cfg base) (\<lambda>fallback.
     Inr (cfg_get_fallback cfg (base @ str_nat i) fallback))"

text \<open>Line 96: \<open>config.getfloat(f"THRESHOLD{i}", config.getfloat("THRESHOLD"))\<close>.\<close>

definition resolve_threshold ::
  "(string \<Rightarrow> real option) \<Rightarrow> config \<Rightarrow> nat \<Rightarrow> py_error + real option" where
  "resolve_threshold parse cfg i =
     bind (cfg_getfloat parse cfg ''THRESHOLD'' None) (\<lambda>fallback.
     cfg_getfloat parse cfg (''THRESHOLD'' @ str_nat i) fallback)"

text \<open>
  Lines 61-76: the differential resistance, its label, and the bias array (divided in
  place in the lock-in branch). The result is the triple \<open>(dvdi, dvdi_label, ibias)\<close>.
\<close>

definition compute_dvdi ::
  "inplane_env \<Rightarrow> config \<Rightarrow> string \<Rightarrow> string \<Rightarrow> complex list list \<Rightarrow> real list list
   \<Rightarrow> py_error + (complex list list \<times> dvdi_label \<times> real list list)" where
  "compute_dvdi env cfg path ch_meas meas ibias =
     (if endswith ch_meas ''VI curve'' \<or> endswith ch_meas ''SingleValue'' then
        bind (gradient meas) (\<lambda>grad_meas.
        bind (gradient ibias) (\<lambda>grad_ibias.
        bind (divide_arrays grad_meas (map (map of_real) grad_ibias)) (\<lambda>quotient.
        bind (cfg_getfloat (parse_float env) cfg ''DC_AMP_GAIN'' None) (\<lambda>gain.
        bind (divide_scalar quotient (map_option of_real gain)) (\<lambda>dvdi.
        Inr (dvdi, Delta_V_over_Delta_I, ibias))))))
      else if endswith ch_meas ''Value'' then
        bind (instrument_config env path ch_meas ''Output amplitude'') (\<lambda>amplitude.
        bind (cfg_getfloat (parse_float env) cfg ''R_AC_OUT'' None) (\<lambda>r_ac_out.
        bind (divide_float amplitude r_ac_out) (\<lambda>ibias_ac.
        bind (divide_scalar (np_abs meas) (Some (of_real ibias_ac))) (\<lambda>dvdi.
        bind (cfg_getfloat (parse_float env) cfg ''R_DC_OUT'' None) (\<lambda>r_dc_out.
        bind (divide_scalar ibias r_dc_out) (\<lambda>ibias'.
        Inr (dvdi, Abs_dV_dI, ibias')))))))
      else Inr (np_abs meas, Abs_dV_dI, ibias))"

text \<open>
  Lines 40-104, one pass of the loop body for dataset \<open>i\<close>, reached when
  \<open>config.get(f"DATAPATH{i}")\<close> is true.
\<close>

definition dataset_body ::
  "inplane_env \<Rightarrow> config \<Rightarrow> inplane_args \<Rightarrow> nat \<Rightarrow> inplane_state
   \<Rightarrow> (inplane_event, inplane_state) run" where
  "dataset_body env cfg args i st =
     seq (lift (resolve_channel cfg ''CH_BIAS'' i)) (\<lambda>ch_bias.
     seq (lift (resolve_channel cfg ''CH_MEAS'' i)) (\<lambda>ch_meas.
     seq (lift (cfg_item cfg (''DATAPATH'' @ str_nat i))) (\<lambda>datapath.
     seq (lift (open_labber env datapath)) (\<lambda>_.
     seq (lift (cfg_item cfg ''CH_FIELD_PERP'')) (\<lambda>ch_field_perp.
     seq (lift (get_data env datapath ch_field_perp ch_bias ch_meas)) (\<lambda>(b_perp, ibias, meas).
     seq (lift (cfg_item cfg ''CH_FIELD_INPLANE'')) (\<lambda>ch_field_inplane.
     seq (lift (split ch_field_inplane '' - '')) (\<lambda>pieces.
     seq (lift (instrument_config env datapath ch_field_inplane (last pieces))) (\<lambda>inplane.
     seq (lift (compute_dvdi env cfg datapath ch_meas meas ibias)) (\<lambda>(dvdi, dvdi_label, ibias).
     seq (emit (Mkdir ''output'')) (\<lambda>_.
     seq (ok (''output/'' @ path_stem env datapath @ ''_inplane='' @ repr_float env inplane))
       (\<lambda>outpath'.
     seq (lift (cfg_item cfg ''FRIDGE'')) (\<lambda>fridge.
     seq (lift (cfg_getfloat (parse_float env) cfg ''VMIN'' None)) (\<lambda>vmin.
     seq (lift (cfg_getfloat (parse_float env) cfg ''VMAX'' None)) (\<lambda>vmax.
     seq (emit (Plot2d (map (map (\<lambda>x. x / 0.001)) b_perp)
                       (map (map (\<lambda>x. x / 0.000001)) ibias)
                       dvdi dvdi_label (rint (inplane / 0.001))
                       (fridge @ ''/'' @ datapath) vmin vmax)) (\<lambda>_.
     seq (ok (unique b_perp)) (\<lambda>b_perp.
     seq (lift (resolve_threshold (parse_float env) cfg i)) (\<lambda>threshold.
     seq (lift (extract_switching_current env ibias dvdi threshold)) (\<lambda>ic_p.
     seq (emit (Ax_plot (map (\<lambda>x. x / 0.001) b_perp) (map (\<lambda>x. x / 0.000001) ic_p))) (\<lambda>_.
     seq (lift (find_fraunhofer_center env b_perp ic_p (debug args))) (\<lambda>center.
     seq (emit (Axvline (center / 0.001))) (\<lambda>_.
     seq (emit (Savefig (outpath' @ ''_fraun-center.png''))) (\<lambda>_.
     ok (st\<lparr>b_inplane := b_inplane st @ [inplane],
             fraun_center := fraun_center st @ [center],
             outpath := Some outpath'\<rparr>))))))))))))))))))))))))"

text \<open>
  Lines 38-105: \<open>i = 1; while config.get(f"DATAPATH{i}"): ...; i += 1\<close>.
\<close>

function datasets_loop ::
  "inplane_env \<Rightarrow> config \<Rightarrow> inplane_args \<Rightarrow> nat \<Rightarrow> inplane_state
   \<Rightarrow> (inplane_event, inplane_state) run" where
  "datasets_loop env cfg args i st =
     (if truthy (cfg_get cfg (''DATAPATH'' @ str_nat i))
      then (case dataset_body env cfg args i st of
              (evs, Inl e) \<Rightarrow> (evs, Inl e)
            | (evs, Inr st') \<Rightarrow>
                (case datasets_loop env cfg args (Suc i) st' of
                   (evs', r) \<Rightarrow> (evs @ evs', r)))
      else ([], Inr st))"
  by pat_completeness auto

text \<open>
  The legend entry of the fitted line (line 122):
  \<open>round(np.degrees(np.arcsin(m)) / 1e-3, 2)\<close>; numpy's arcsin is nan outside [-1, 1].
\<close>

definition misalignment_mdeg :: "real \<Rightarrow> real option" where
  "misalignment_mdeg m =
     (if - 1 \<le> m \<and> m \<le> 1 then Some (np_round (degrees (arcsin m) / 0.001) 2) else None)"

text \<open>
  Lines 110-125, the body of \<open>if args.align\<close>. The name \<open>outpath\<close> is bound only inside
  the loop: reading it after no pass raises NameError.
\<close>

definition field_alignment :: "inplane_env \<Rightarrow> inplane_state \<Rightarrow> (inplane_event, unit) run" where
  "field_alignment env st =
     seq (lift (polyfit env (b_inplane st) (fraun_center st))) (\<lambda>(m, b).
     seq (emit (Plot (map (\<lambda>x. x / 0.001) (b_inplane st))
                     (map (\<lambda>y. y / 0.000001) (fraun_center st)))) (\<lambda>_.
     seq (emit (Ax_plot_mdeg (map (\<lambda>x. x / 0.001) (b_inplane st))
                             (map (\<lambda>x. (m * x + b) / 0.000001) (b_inplane st))
                             (misalignment_mdeg m))) (\<lambda>_.
     (case outpath st of
        None \<Rightarrow> raise (NameError ''outpath'')
      | Some p \<Rightarrow> emit (Savefig (p @ ''_field-alignment.png''))))))"

text \<open>The whole script after the configuration is loaded.\<close>

definition inplane_main :: "inplane_env \<Rightarrow> config \<Rightarrow> inplane_args \<Rightarrow> (inplane_event, unit) run" where
  "inplane_main env cfg args =
     seq (datasets_loop env cfg args 1 \<lparr>b_inplane = [], fraun_center = [], outpath = None\<rparr>)
       (\<lambda>st.
     seq (if align args then field_alignment env st else ok ()) (\<lambda>_.
     emit Show))"

text \<open>
  The loop body run over a given list of dataset indices, in order, stopping at the
  first exception: what the loop amounts to once the indices are known.
\<close>

fun run_datasets ::
  "inplane_env \<Rightarrow> config \<Rightarrow> inplane_args \<Rightarrow> nat list \<Rightarrow> inplane_state
   \<Rightarrow> (inplane_event, inplane_state) run" where
  "run_datasets env cfg args [] st = ok st"
| "run_datasets env cfg args (i # is) st =
     seq (dataset_body env cfg args i st) (\<lambda>st'. run_datasets env cfg args is st')"

text \<open>
  The per-dataset options with an index beyond \<open>n\<close>: \<open>DATAPATH{j}\<close>, \<open>CH_BIAS{j}\<close>,
  \<open>CH_MEAS{j}\<close> and \<open>THRESHOLD{j}\<close> for \<open>j > n\<close>.
\<close>

definition later_key :: "nat \<Rightarrow> string \<Rightarrow> bool" where
  "later_key n key =
     (\<exists>j>n. key = ''DATAPATH'' @ str_nat j \<or> key = ''CH_BIAS'' @ str_nat j \<or>
            key = ''CH_MEAS'' @ str_nat j \<or> key = ''THRESHOLD'' @ str_nat j)"

text \<open>
  What \<open>np.polyfit(x, y, 1)\<close> computes on well-posed data: the line through the points
  with the least sum of squared residuals, from the normal equations, slope first.
  When the points do not determine a line (differing lengths, or a vanishing
  determinant \<open>n * sum(x*x) - sum(x)^2\<close>) there is no such line: \<open>None\<close>.
\<close>

definition least_squares_line :: "real list \<Rightarrow> real list \<Rightarrow> (real \<times> real) option" where
  "least_squares_line xs ys =
     (let n = real (length xs);
          sx = sum_list xs;
          sy = sum_list ys;
          sxx = sum_list (map (\<lambda>x. x * x) xs);
          sxy = sum_list (map2 (\<lambda>x y. x * y) xs ys);
          d = n * sxx - sx * sx
      in if length xs \<noteq> length ys \<or> d = 0 then None
         else Some ((n * sxy - sx * sy) / d, (sy * sxx - sx * sxy) / d))"

text \<open>The library's \<open>polyfit\<close> is a least-squares fit: it returns that line whenever there is one.\<close>

definition fits_least_squares :: "inplane_env \<Rightarrow> bool" where
  "fits_least_squares env =
     (\<forall>xs ys mb. least_squares_line xs ys = Some mb \<longrightarrow> polyfit env xs ys = Inr mb)"

section \<open>scripts/squid/fit_squid_oscillations.py\<close>

subsection \<open>Fit parameters (lmfit)\<close>

text \<open>
  An lmfit parameter: its value, whether the optimiser varies it, its bounds (\<open>None\<close>
  for the infinite defaults) and the expression tying it to other parameters.
\<close>

record parameter =
  pvalue :: "real option"
  vary :: bool
  pmin :: "real option"
  pmax :: "real option"
  expr :: "string option"

type_synonym parameters = "string \<Rightarrow> parameter option"

text \<open>
  \<open>model.make_params()\<close>: one parameter for each parameter name of the model function,
  each without value, free, unbounded and without expression. The model function
  \<open>squid_model_func\<close> is not among the sources: its parameter names are an argument.
\<close>

definition default_parameter :: parameter where
  "default_parameter = \<lparr>pvalue = None, vary = True, pmin = None, pmax = None, expr = None\<rparr>"

definition make_params :: "string list \<Rightarrow> parameters" where
  "make_params names = (\<lambda>name. if name \<in> set names then Some default_parameter else None)"

text \<open>
  The values a bounded parameter may take: lmfit's bounds are closed, the optimiser
  can reach \<open>min\<close> and \<open>max\<close> themselves.
\<close>

definition within_bounds :: "parameter \<Rightarrow> real \<Rightarrow> bool" where
  "within_bounds p v =
     ((case pmin p of None \<Rightarrow> True | Some lo \<Rightarrow> lo \<le> v) \<and>
      (case pmax p of None \<Rightarrow> True | Some hi \<Rightarrow> v \<le> hi))"

text \<open>
  \<open>Parameter.set(value=..., vary=..., max=..., expr=...)\<close>, each argument optional
  (\<open>None\<close>: not given). A new value is clipped into the bounds; an expression
  switches \<open>vary\<close> off.
\<close>

definition clip :: "parameter \<Rightarrow> parameter" where
  "clip p =
     (case pvalue p of
        None \<Rightarrow> p
      | Some v \<Rightarrow>
          (let v1 = (case pmax p of None \<Rightarrow> v | Some hi \<Rightarrow> min v hi);
               v2 = (case pmin p of None \<Rightarrow> v1 | Some lo \<Rightarrow> max v1 lo)
           in p\<lparr>pvalue := Some v2\<rparr>))"

definition set_parameter ::
  "parameter \<Rightarrow> real option \<Rightarrow> bool option \<Rightarrow> real option \<Rightarrow> string option \<Rightarrow> parameter" where
  "set_parameter p value' vary' max' expr' =
     (let p1 = (case value' of None \<Rightarrow> p | Some v \<Rightarrow> p\<lparr>pvalue := Some v\<rparr>);
          p2 = (case vary' of None \<Rightarrow> p1 | Some b \<Rightarrow> p1\<lparr>vary := b\<rparr>);
          p3 = (case max' of None \<Rightarrow> p2 | Some hi \<Rightarrow> p2\<lparr>pmax := Some hi\<rparr>);
          p4 = clip p3
      in (case expr' of None \<Rightarrow> p4 | Some e \<Rightarrow> p4\<lparr>expr := Some e, vary := False\<rparr>))"

text \<open>
  \<open>params[name]\<close>: KeyError when the model has no such parameter. The script's
  \<open>params[name].set(...)\<close> is this lookup, then the arguments, then the update
  \<open>params(name \<mapsto> set_parameter p ...)\<close>.
\<close>

definition params_item :: "parameters \<Rightarrow> string \<Rightarrow> py_error + parameter" where
  "params_item params name =
     (case params name of None \<Rightarrow> Inl (KeyError name) | Some p \<Rightarrow> Inr p)"

text \<open>\<open>popt[name]\<close> read as a number.\<close>

definition param_value :: "parameters \<Rightarrow> string \<Rightarrow> py_error + real" where
  "param_value params name =
     (case params name of
        None \<Rightarrow> Inl (KeyError name)
      | Some p \<Rightarrow> (case pvalue p of None \<Rightarrow> Inl (OutsideModel ''value not set'') | Some v \<Rightarrow> Inr v))"

subsection \<open>Command line, libraries, effects\<close>

record squid_args =
  both_branches :: bool
  dry_run :: bool
  plot_guess :: bool
  conf_interval :: "int list option"
  emcee :: bool
  verbose :: bool

text \<open>What \<open>model.fit\<close> returns, as far as the script reads it.\<close>

record fit_result =
  result_params :: parameters
  best_fit :: "real list"

text \<open>
  The libraries as parameters (their sources are not here):
  \<^item> \<open>module_attribute\<close>: which double-underscore names the module
    \<open>shabanipy.constants\<close> resolves;
  \<^item> \<open>script_file\<close>: \<open>__file__\<close>; \<open>data_dir\<close>: \<open>get_data_dir()\<close>;
    \<open>join_path a b\<close>: \<open>str(Path(a) / b)\<close>;
  \<^item> \<open>float_of\<close>, \<open>bool_of\<close>: the conversions behind \<open>getfloat\<close> and \<open>getboolean\<close>;
  \<^item> \<open>open_data path\<close>: entering \<open>with LabberData(path) as f\<close>;
    \<open>field_data\<close>, \<open>lockin_data\<close> (bias and lock-in signal), \<open>temp_data\<close>:
    the three \<open>f.get_data\<close> calls; \<open>not_constant\<close>: whether \<open>f.warn_not_constant\<close> warns;
  \<^item> \<open>extract_both ibias dvdi threshold\<close>: \<open>extract_switching_current\<close> with
    \<open>side="both"\<close> and \<open>interp=True\<close>, giving \<open>(ic_n, ic_p)\<close>;
  \<^item> \<open>param_names\<close>: the parameter names of \<open>squid_model_func\<close>;
  \<^item> \<open>estimate_boffset\<close>, \<open>estimate_frequency\<close>;
  \<^item> \<open>model_fit both emcee data weights bfield params\<close>: \<open>model.fit\<close> (with
    \<open>method="emcee"\<close> when the second flag is set);
    \<open>model_eval both bfield params\<close>: \<open>model.eval\<close>.
  The model is built with \<open>both_branches=args.both_branches\<close>: the functions of the
  model take that flag first.
  Drawing and writing files are taken to succeed.
\<close>

record squid_env =
  module_attribute :: "string \<Rightarrow> bool"
  script_file :: string
  data_dir :: "py_error + string"
  join_path :: "string \<Rightarrow> string \<Rightarrow> string"
  float_of :: "string \<Rightarrow> real option"
  bool_of :: "string \<Rightarrow> bool option"
  open_data :: "string \<Rightarrow> py_error + unit"
  field_data :: "string \<Rightarrow> string \<Rightarrow> py_error + real list"
  lockin_data :: "string \<Rightarrow> string \<Rightarrow> py_error + (real list list \<times> complex list list)"
  temp_data :: "string \<Rightarrow> string \<Rightarrow> py_error + real list"
  not_constant :: "string \<Rightarrow> string \<Rightarrow> bool"
  extract_both ::
    "real list list \<Rightarrow> real list list \<Rightarrow> real option \<Rightarrow> py_error + (real list \<times> real list)"
  param_names :: "string list"
  estimate_boffset ::
    "real list \<Rightarrow> real list \<Rightarrow> real list option \<Rightarrow> py_error + (real \<times> nat list list)"
  estimate_frequency ::
    "real list \<Rightarrow> real list \<Rightarrow> py_error + (real \<times> real list \<times> real list)"
  model_fit ::
    "bool \<Rightarrow> bool \<Rightarrow> real list \<Rightarrow> real \<Rightarrow> real list \<Rightarrow> parameters \<Rightarrow> py_error + fit_result"
  model_eval :: "bool \<Rightarrow> real list \<Rightarrow> parameters \<Rightarrow> py_error + real list"

text \<open>
  The effects, in the order the script performs them.
  \<^item> \<open>Warn\<close>: a \<open>warnings.warn\<close>, which does not stop the script;
  \<^item> \<open>Makedirs\<close>: the output directory;
  \<^item> \<open>Raw_plot x y z\<close>: the false-colour map of the raw data (field in mT, bias in
    microamps, dV/dI);
  \<^item> \<open>Draw what x y\<close>: a line drawn into the current figure; \<open>what\<close> names the curve;
  \<^item> \<open>Vline x\<close>: a vertical line;
  \<^item> \<open>Save_figure name\<close>: \<open>fig.savefig\<close>;
  \<^item> \<open>Optimise emcee data weights bfield\<close>: a call of \<open>model.fit\<close>;
  \<^item> \<open>Confidence sigmas\<close>: \<open>result.conf_interval\<close>;
  \<^item> \<open>Print what\<close>: a report printed to standard output (progress messages are left
    out);
  \<^item> \<open>Write_text name what\<close>: a text file written; \<open>Save_modelresult name\<close>;
    \<open>To_csv name columns\<close>;
  \<^item> \<open>Show_figures\<close>: \<open>plt.show()\<close>.
\<close>

datatype squid_event =
    Warn string
  | Makedirs string
  | Raw_plot "real list" "real list list" "real list list"
  | Draw string "real list" "real list"
  | Vline real
  | Save_figure string
  | Optimise bool "real list" real "real list"
  | Confidence "int list option"
  | Print string
  | Write_text string string
  | Save_modelresult string
  | To_csv string "(string \<times> real list) list"
  | Show_figures

subsection \<open>Small pieces\<close>

text \<open>\<open>sub in s\<close> for strings.\<close>

definition contains :: "string \<Rightarrow> string \<Rightarrow> bool" where
  "contains s sub = list_ex (\<lambda>i. take (length sub) (drop i s) = sub) [0..<Suc (length s)]"

text \<open>\<open>np.mean\<close>: the mean of no elements is nan (with a warning).\<close>

definition mean :: "real list \<Rightarrow> py_error + real" where
  "mean xs =
     (if xs = [] then Inl (OutsideModel ''mean of empty array'')
      else Inr (sum_list xs / real (length xs)))"

text \<open>\<open>np.diff(a, axis=-1)\<close>.\<close>

fun diff_row :: "real list \<Rightarrow> real list" where
  "diff_row (a # b # xs) = (b - a) # diff_row (b # xs)"
| "diff_row xs = []"

text \<open>\<open>np.allclose(a, b)\<close> for an array and a scalar, with numpy's default tolerances.\<close>

definition allclose :: "real list \<Rightarrow> real \<Rightarrow> bool" where
  "allclose xs b = list_all (\<lambda>a. \<bar>a - b\<bar> \<le> 0.00000001 + 0.00001 * \<bar>b\<bar>) xs"

text \<open>\<open>a[idxs]\<close> with an index array: IndexError when an index is out of range.\<close>

definition take_indices :: "real list \<Rightarrow> nat list \<Rightarrow> py_error + real list" where
  "take_indices xs idxs =
     (if list_all (\<lambda>i. i < length xs) idxs then Inr (map (\<lambda>i. xs ! i) idxs)
      else Inl IndexError)"

text \<open>\<open>np.split(a, 2)\<close>: two halves, ValueError when the length is odd.\<close>

definition split_halves :: "real list \<Rightarrow> py_error + (real list \<times> real list)" where
  "split_halves xs =
     (if odd (length xs) then Inl ValueError
      else Inr (take (length xs div 2) xs, drop (length xs div 2) xs))"

text \<open>
  Lines 153-162, the sign convention of the fridge: \<open>np.flip(bfield) * -1\<close> and the two
  flipped branches for \<open>vector10\<close>, nothing for \<open>vector9\<close>, a warning otherwise. The
  comparison is with the option as written, not upper-cased.
\<close>

definition fridge_convention ::
  "string \<Rightarrow> real list \<times> real list \<times> real list
   \<Rightarrow> (squid_event, real list \<times> real list \<times> real list) run" where
  "fridge_convention fridge arrays =
     (case arrays of (bfield, ic_p, ic_n) \<Rightarrow>
        if fridge = ''vector10'' then
          ok (map (\<lambda>x. x * - 1) (rev bfield), rev ic_p, rev ic_n)
        else if fridge = ''vector9'' then
          ok (bfield, ic_p, ic_n)
        else
          seq (emit (Warn (''I do not recognize fridge '' @ fridge))) (\<lambda>_.
          ok (bfield, ic_p, ic_n)))"

subsection \<open>The script, stage by stage\<close>

text \<open>\<open>config.getboolean(key)\<close>: None (false) for a missing option, ValueError for no boolean.\<close>

definition cfg_getboolean :: "(string \<Rightarrow> bool option) \<Rightarrow> config \<Rightarrow> string \<Rightarrow> py_error + bool" where
  "cfg_getboolean conv cfg key =
     (case map_of cfg key of
        None \<Rightarrow> Inr False
      | Some v \<Rightarrow> (case conv v of None \<Rightarrow> Inl ValueError | Some b \<Rightarrow> Inr b))"

text \<open>
  Lines 93-119: the input path, the conversion factor with its sanity check, the
  output directory and the prefix of every output file. The result is
  \<open>(INPATH, AMPS_PER_T, OUTPATH)\<close>.
\<close>

definition squid_paths ::
  "squid_env \<Rightarrow> config \<Rightarrow> (squid_event, string \<times> attribute \<times> string) run" where
  "squid_paths env cfg =
     seq (lift (data_dir env)) (\<lambda>default_dir.
     seq (lift (cfg_item cfg ''DATAPATH'')) (\<lambda>datapath.
     seq (ok (join_path env (cfg_get_fallback cfg ''LABBERDATA_DIR'' default_dir) datapath))
       (\<lambda>inpath.
     seq (lift (cfg_item cfg ''FRIDGE'')) (\<lambda>fridge.
     seq (lift (cfg_item cfg ''PERP_AXIS'')) (\<lambda>perp_axis.
     seq (lift (lookup_amps_per_t (module_attribute env) fridge perp_axis)) (\<lambda>amps_per_t.
     seq (if contains inpath fridge then ok ()
          else emit (Warn (''I can not double check that '' @ datapath @ '' is from '' @ fridge)))
       (\<lambda>_.
     seq (lift (cfg_item cfg ''WAFER'')) (\<lambda>wafer.
     seq (lift (cfg_item cfg ''PIECE'')) (\<lambda>piece.
     seq (lift (cfg_item cfg ''LAYOUT'')) (\<lambda>layout.
     seq (lift (cfg_item cfg ''DEVICE'')) (\<lambda>device.
     seq (ok (replace_char (hd (split_acc ''.py'' (script_file env) [])) CHR ''_'' CHR ''-''
              @ ''-results/'' @ wafer @ ''-'' @ piece @ ''_'' @ layout @ ''/'' @ device))
       (\<lambda>outdir.
     seq (emit (Makedirs outdir)) (\<lambda>_.
     seq (lift (cfg_item cfg ''COOLDOWN'')) (\<lambda>cooldown.
     seq (lift (cfg_item cfg ''SCAN'')) (\<lambda>scan.
     ok (inpath, amps_per_t, join_path env outdir (cooldown @ ''-'' @ scan)))))))))))))))))"

text \<open>
  Lines 121-127: the data. The field channel is divided by the conversion factor as
  it is read; dividing an array by an attribute that is no number raises TypeError.
  The result is \<open>(bfield, ibias, dvdi, temp_meas)\<close>.
\<close>

definition divide_by_attribute :: "real list \<Rightarrow> attribute \<Rightarrow> py_error + real list" where
  "divide_by_attribute xs a =
     (case a of
        Number c \<Rightarrow> Inr (map (\<lambda>x. x / c) xs)
      | Module_attribute \<Rightarrow> Inl TypeError)"

definition squid_load ::
  "squid_env \<Rightarrow> config \<Rightarrow> string \<Rightarrow> attribute
   \<Rightarrow> (squid_event, real list \<times> real list list \<times> real list list \<times> real list) run" where
  "squid_load env cfg inpath amps_per_t =
     seq (lift (open_data env inpath)) (\<lambda>_.
     seq (lift (cfg_item cfg ''CH_FIELD_PERP'')) (\<lambda>ch_field_perp.
     seq (lift (field_data env inpath ch_field_perp)) (\<lambda>raw_field.
     seq (lift (divide_by_attribute raw_field amps_per_t)) (\<lambda>bfield.
     seq (lift (cfg_item cfg ''CH_LOCKIN'')) (\<lambda>ch_lockin.
     seq (lift (lockin_data env inpath ch_lockin)) (\<lambda>(ibias, lockin).
     seq (ok (map (map cmod) lockin)) (\<lambda>dvdi.
     seq (lift (cfg_item cfg ''CH_TEMP_MEAS'')) (\<lambda>ch_temp_meas.
     seq (lift (temp_data env inpath ch_temp_meas)) (\<lambda>temp_meas.
     seq (if not_constant env inpath ch_temp_meas
          then emit (Warn (ch_temp_meas @ '' is not constant'')) else ok ()) (\<lambda>_.
     ok (bfield, ibias, dvdi, temp_meas)))))))))))"

text \<open>
  Lines 129-162: the raw-data figure, the switching currents drawn over it, and the
  sign convention. The result is \<open>(bfield, ic_p, ic_n)\<close> as used from here on.
\<close>

definition squid_extract ::
  "squid_env \<Rightarrow> config \<Rightarrow> string \<Rightarrow> real list \<Rightarrow> real list list \<Rightarrow> real list list
   \<Rightarrow> (squid_event, real list \<times> real list \<times> real list) run" where
  "squid_extract env cfg outpath' bfield ibias dvdi =
     seq (emit (Raw_plot (map (\<lambda>x. x / 0.001) bfield)
                         (map (map (\<lambda>x. x / 0.000001)) ibias) dvdi)) (\<lambda>_.
     seq (emit (Save_figure (outpath' @ ''_raw-data.png''))) (\<lambda>_.
     seq (lift (cfg_getfloat (float_of env) cfg ''RESISTANCE_THRESHOLD'' None)) (\<lambda>threshold.
     seq (lift (extract_both env ibias dvdi threshold)) (\<lambda>(ic_n, ic_p).
     seq (emit (Draw ''ic_p'' (map (\<lambda>x. x / 0.001) bfield)
                              (map (\<lambda>x. x / 0.000001) ic_p))) (\<lambda>_.
     seq (emit (Draw ''ic_n'' (map (\<lambda>x. x / 0.001) bfield)
                              (map (\<lambda>x. x / 0.000001) ic_n))) (\<lambda>_.
     seq (emit (Save_figure (outpath' @ ''_ic-extraction.png''))) (\<lambda>_.
     seq (lift (cfg_item cfg ''FRIDGE'')) (\<lambda>fridge.
     fridge_convention fridge (bfield, ic_p, ic_n)))))))))"

text \<open>
  Lines 165-189: the initial parameters, in four groups. \<open>set_item params name f\<close> is
  \<open>params[name].set(...)\<close> once the arguments are known.
\<close>

definition set_item ::
  "parameters \<Rightarrow> string \<Rightarrow> (parameter \<Rightarrow> parameter) \<Rightarrow> py_error + parameters" where
  "set_item params name f =
     bind (params_item params name) (\<lambda>p. Inr (params(name \<mapsto> f p)))"

text \<open>Lines 168-172: both transparencies start at 0.5 with the upper bound 1.\<close>

definition init_transparencies :: "squid_env \<Rightarrow> config \<Rightarrow> py_error + parameters" where
  "init_transparencies env cfg =
     bind (set_item (make_params (param_names env)) ''transparency1''
             (\<lambda>p. set_parameter p (Some 0.5) None (Some 1) None)) (\<lambda>params.
     bind (set_item params ''transparency2''
             (\<lambda>p. set_parameter p (Some 0.5) None (Some 1) None)) (\<lambda>params.
     bind (cfg_getboolean (bool_of env) cfg ''EQUAL_TRANSPARENCIES'') (\<lambda>equal.
     if equal
     then set_item params ''transparency2''
            (\<lambda>p. set_parameter p None None None (Some ''transparency1''))
     else Inr params)))"

text \<open>Lines 173-174: the two switching currents from the positive branch.\<close>

definition init_currents :: "parameters \<Rightarrow> real list \<Rightarrow> py_error + parameters" where
  "init_currents params ic_p =
     bind (params_item params ''switching_current1'') (\<lambda>_.
     bind (amax ic_p) (\<lambda>hi.
     bind (amin ic_p) (\<lambda>lo.
     bind (set_item params ''switching_current1''
             (\<lambda>p. set_parameter p (Some ((hi - lo) / 2)) None None None)) (\<lambda>params.
     bind (params_item params ''switching_current2'') (\<lambda>_.
     bind (mean ic_p) (\<lambda>mean_ic.
     set_item params ''switching_current2''
       (\<lambda>p. set_parameter p (Some mean_ic) None None None)))))))"

text \<open>
  Lines 175-180: the field offset and the frequency from the two estimators. The
  result carries what the estimators returned:
  \<open>(params, boffset, peak_idxs, cyc_per_T, freqs, abs_fft)\<close>.
\<close>

definition init_estimates ::
  "squid_env \<Rightarrow> squid_args \<Rightarrow> parameters \<Rightarrow> real list \<Rightarrow> real list \<Rightarrow> real list
   \<Rightarrow> py_error + (parameters \<times> real \<times> nat list list \<times> real \<times> real list \<times> real list)" where
  "init_estimates env args params bfield ic_p ic_n =
     bind (estimate_boffset env bfield ic_p (if both_branches args then Some ic_n else None))
       (\<lambda>(boffset, peak_idxs).
     bind (set_item params ''bfield_offset''
             (\<lambda>p. set_parameter p (Some boffset) None None None)) (\<lambda>params.
     bind (estimate_frequency env bfield ic_p) (\<lambda>(cyc_per_T, freqs, abs_fft).
     bind (set_item params ''radians_per_tesla''
             (\<lambda>p. set_parameter p (Some (2 * pi * cyc_per_T)) None None None)) (\<lambda>params.
     Inr (params, boffset, peak_idxs, cyc_per_T, freqs, abs_fft)))))"

text \<open>
  Lines 185-189: the anomalous phases, the temperature and the gap are fixed; the
  inductance is free. The gap is \<open>200e-6 * eV\<close> with scipy's \<open>eV = 1.602176634e-19\<close>.
\<close>

definition init_fixed :: "parameters \<Rightarrow> real list \<Rightarrow> py_error + parameters" where
  "init_fixed params temp_meas =
     bind (set_item params ''anom_phase1''
             (\<lambda>p. set_parameter p (Some 0) (Some False) None None)) (\<lambda>params.
     bind (set_item params ''anom_phase2''
             (\<lambda>p. set_parameter p (Some 0) (Some False) None None)) (\<lambda>params.
     bind (params_item params ''temperature'') (\<lambda>_.
     bind (mean temp_meas) (\<lambda>mean_temp.
     bind (set_item params ''temperature''
             (\<lambda>p. set_parameter p (Some (np_round mean_temp 3)) (Some False) None None))
       (\<lambda>params.
     bind (set_item params ''gap''
             (\<lambda>p. set_parameter p (Some (0.0002 * 1.602176634 / 10 ^ 19)) (Some False) None None))
       (\<lambda>params.
     set_item params ''inductance''
       (\<lambda>p. set_parameter p (Some (1 / 10 ^ 9)) None None None)))))))"

definition squid_params ::
  "squid_env \<Rightarrow> config \<Rightarrow> squid_args \<Rightarrow> real list \<Rightarrow> real list \<Rightarrow> real list \<Rightarrow> real list
   \<Rightarrow> py_error + (parameters \<times> real \<times> nat list list \<times> real \<times> real list \<times> real list)" where
  "squid_params env cfg args bfield ic_p ic_n temp_meas =
     bind (init_transparencies env cfg) (\<lambda>params.
     bind (init_currents params ic_p) (\<lambda>params.
     bind (init_estimates env args params bfield ic_p ic_n)
       (\<lambda>(params, boffset, peak_idxs, cyc_per_T, freqs, abs_fft).
     bind (init_fixed params temp_meas) (\<lambda>params.
     Inr (params, boffset, peak_idxs, cyc_per_T, freqs, abs_fft)))))"

text \<open>
  Lines 191-247: the two diagnostic figures. \<open>peak_idxs[0]\<close> and \<open>peak_idxs[-1]\<close> raise
  IndexError on an empty sequence; the annotation \<open>1 / cyc_per_T\<close> is outside the model
  at frequency 0.
\<close>

definition peaks_at :: "nat list list \<Rightarrow> bool \<Rightarrow> py_error + nat list" where
  "peaks_at peak_idxs from_end =
     (if peak_idxs = [] then Inl IndexError
      else Inr (if from_end then last peak_idxs else hd peak_idxs))"

definition squid_diagnostics ::
  "squid_args \<Rightarrow> string \<Rightarrow> real list \<Rightarrow> real list \<Rightarrow> real list
   \<Rightarrow> real \<Rightarrow> nat list list \<Rightarrow> real \<Rightarrow> real list \<Rightarrow> real list \<Rightarrow> (squid_event, unit) run" where
  "squid_diagnostics args outpath' bfield ic_p ic_n boffset peak_idxs cyc_per_T freqs abs_fft =
     seq (emit (Draw ''fft'' (map (\<lambda>x. x / 1000) freqs) abs_fft)) (\<lambda>_.
     seq (lift (amax (tl abs_fft))) (\<lambda>_.
     seq (emit (Vline (cyc_per_T / 1000))) (\<lambda>_.
     seq (if cyc_per_T = 0 then raise (OutsideModel ''division by zero'') else ok ()) (\<lambda>_.
     seq (emit (Save_figure (outpath' @ ''_fft.png''))) (\<lambda>_.
     seq (if both_branches args then
            seq (emit (Draw ''ic_n'' (map (\<lambda>x. x / 0.001) bfield)
                                     (map (\<lambda>x. x / 0.000001) ic_n))) (\<lambda>_.
            seq (lift (peaks_at peak_idxs True)) (\<lambda>idxs.
            seq (lift (take_indices bfield idxs)) (\<lambda>bs.
            seq (lift (take_indices ic_n idxs)) (\<lambda>is.
            seq (emit (Draw ''peaks_n'' (map (\<lambda>x. x / 0.001) bs)
                                        (map (\<lambda>x. x / 0.000001) is))) (\<lambda>_.
            emit (Vline (boffset / 0.001)))))))
          else ok ()) (\<lambda>_.
     seq (emit (Draw ''ic_p'' (map (\<lambda>x. x / 0.001) bfield)
                              (map (\<lambda>x. x / 0.000001) ic_p))) (\<lambda>_.
     seq (emit (Vline (boffset / 0.001))) (\<lambda>_.
     seq (lift (peaks_at peak_idxs False)) (\<lambda>idxs.
     seq (lift (take_indices bfield idxs)) (\<lambda>bs.
     seq (lift (take_indices ic_p idxs)) (\<lambda>is.
     seq (emit (Draw ''peaks_p'' (map (\<lambda>x. x / 0.001) bs)
                                 (map (\<lambda>x. x / 0.000001) is))) (\<lambda>_.
     emit (Save_figure (outpath' @ ''_bfield-offset.png''))))))))))))))"

text \<open>
  Lines 249-256: the uncertainty that weights the residuals, with the warning when
  the bias steps are not uniform.
\<close>

definition squid_uncertainty :: "real list list \<Rightarrow> (squid_event, real) run" where
  "squid_uncertainty ibias =
     seq (ok (concat (map diff_row ibias))) (\<lambda>ibias_step.
     seq (lift (mean ibias_step)) (\<lambda>uncertainty.
     seq (if \<not> allclose ibias_step uncertainty
          then emit (Warn ''Bias current has variable step sizes'') else ok ()) (\<lambda>_.
     ok uncertainty)))"

text \<open>
  Lines 258-322, the body of \<open>if not args.dry_run\<close>: the optimisation and everything
  written from its result.
\<close>

definition squid_fit ::
  "squid_env \<Rightarrow> squid_args \<Rightarrow> string \<Rightarrow> real list \<Rightarrow> real list \<Rightarrow> real list \<Rightarrow> real
   \<Rightarrow> parameters \<Rightarrow> (squid_event, fit_result) run" where
  "squid_fit env args outpath' bfield ic_p ic_n uncertainty params =
     seq (ok (if both_branches args then ic_p @ ic_n else ic_p)) (\<lambda>data.
     seq (lift (divide_float 1 (Some uncertainty))) (\<lambda>weights.
     seq (emit (Optimise False data weights bfield)) (\<lambda>_.
     seq (lift (model_fit env (both_branches args) False data weights bfield params)) (\<lambda>result.
     seq (emit (Print ''fit report'')) (\<lambda>_.
     seq (emit (Write_text (outpath' @ ''_fit-report.txt'') ''fit report'')) (\<lambda>_.
     seq (emit (Write_text (outpath' @ ''_fit-params.txt'') ''parameter table'')) (\<lambda>_.
     seq (case conf_interval args of
            None \<Rightarrow> ok ()
          | Some sigmas \<Rightarrow>
              seq (emit (Confidence (if sigmas = [] then None else Some sigmas))) (\<lambda>_.
              emit (Print ''confidence interval report''))) (\<lambda>_.
     seq (emit (Save_modelresult (outpath' @ ''_model-result.json''))) (\<lambda>_.
     seq (if emcee args then
            seq (emit (Optimise True data weights bfield)) (\<lambda>_.
            seq (lift (model_fit env (both_branches args) True data weights bfield
                         (result_params result))) (\<lambda>mcmc_result.
            seq (emit (Save_modelresult (outpath' @ ''_mcmc-result.json''))) (\<lambda>_.
            seq (emit (Print ''emcee report'')) (\<lambda>_.
            seq (emit (Save_figure (outpath' @ ''_emcee-acceptance-fraction.png''))) (\<lambda>_.
            emit (Save_figure (outpath' @ ''_emcee-corner.png'')))))))
          else ok ()) (\<lambda>_.
     ok result))))))))))"

text \<open>
  Lines 325-379: the fit figure and the table. \<open>result\<close> is \<open>None\<close> in a dry run, where
  the name is not bound; \<open>popt\<close> is then the initial parameter set.
\<close>

definition bound :: "string \<Rightarrow> 'a option \<Rightarrow> py_error + 'a" where
  "bound name x = (case x of None \<Rightarrow> Inl (NameError name) | Some v \<Rightarrow> Inr v)"

definition squid_overlay ::
  "squid_env \<Rightarrow> squid_args \<Rightarrow> string \<Rightarrow> real list \<Rightarrow> real list \<Rightarrow> real list
   \<Rightarrow> parameters \<Rightarrow> fit_result option \<Rightarrow> (squid_event, unit) run" where
  "squid_overlay env args outpath' bfield ic_p ic_n params result =
     seq (if \<not> dry_run args
          then lift (bind (bound ''result'' result) (\<lambda>r. Inr (result_params r)))
          else ok params) (\<lambda>popt.
     seq (lift (param_value popt ''bfield_offset'')) (\<lambda>bfield_offset.
     seq (lift (param_value popt ''radians_per_tesla'')) (\<lambda>radians_per_tesla.
     seq (ok (map (\<lambda>x. (x - bfield_offset) * radians_per_tesla) bfield)) (\<lambda>phase.
     seq (ok (map (\<lambda>x. x / (2 * pi)) phase)) (\<lambda>turns.
     seq (if both_branches args then
            seq (emit (Draw ''data_n'' turns (map (\<lambda>x. x / 0.000001) ic_n))) (\<lambda>_.
            seq (if \<not> dry_run args then
                   seq (lift (bound ''result'' result)) (\<lambda>r.
                   seq (lift (split_halves (best_fit r))) (\<lambda>(best_p, best_n).
                   seq (emit (Draw ''fit_n'' turns (map (\<lambda>x. x / 0.000001) best_n))) (\<lambda>_.
                   ok (Some best_p, Some best_n))))
                 else ok (None, None)) (\<lambda>(best_p, best_n).
            seq (lift (model_eval env (both_branches args) bfield params)) (\<lambda>init.
            seq (lift (split_halves init)) (\<lambda>(init_p, init_n).
            seq (if plot_guess args
                 then emit (Draw ''guess_n'' turns (map (\<lambda>x. x / 0.000001) init_n))
                 else ok ()) (\<lambda>_.
            ok (best_p, best_n, init_p, Some init_n))))))
          else
            seq (if \<not> dry_run args
                 then lift (bind (bound ''result'' result) (\<lambda>r. Inr (Some (best_fit r))))
                 else ok None) (\<lambda>best_p.
            seq (lift (model_eval env (both_branches args) bfield params)) (\<lambda>init_p.
            ok (best_p, None, init_p, None))))
       (\<lambda>(best_p, best_n, init_p, init_n).
     seq (emit (Draw ''data_p'' turns (map (\<lambda>x. x / 0.000001) ic_p))) (\<lambda>_.
     seq (if \<not> dry_run args then
            seq (lift (bound ''best_p'' best_p)) (\<lambda>best.
            emit (Draw ''fit_p'' turns (map (\<lambda>x. x / 0.000001) best)))
          else ok ()) (\<lambda>_.
     seq (if plot_guess args
          then emit (Draw ''guess_p'' turns (map (\<lambda>x. x / 0.000001) init_p))
          else ok ()) (\<lambda>_.
     seq (emit (Save_figure (outpath' @ ''_fit.png''))) (\<lambda>_.
     seq (if \<not> dry_run args then
            seq (lift (bound ''best_p'' best_p)) (\<lambda>best.
            seq (if both_branches args then
                   seq (lift (bound ''best_n'' best_n)) (\<lambda>best'.
                   seq (lift (bound ''init_n'' init_n)) (\<lambda>init'.
                   ok [(''ic_n'', ic_n), (''fit_n'', best'), (''init_n'', init')]))
                 else ok []) (\<lambda>more.
            emit (To_csv (outpath' @ ''_fit.csv'')
                    ([(''bfield'', bfield), (''phase'', phase), (''ic_p'', ic_p),
                      (''fit_p'', best), (''init_p'', init_p)] @ more))))
          else ok ()) (\<lambda>_.
     emit Show_figures)))))))))))"

text \<open>
  Lines 165-379: everything after the sign convention, as a function of the field
  array and the two branches it is given.
\<close>

definition squid_analysis ::
  "squid_env \<Rightarrow> config \<Rightarrow> squid_args \<Rightarrow> string \<Rightarrow> real list \<Rightarrow> real list \<Rightarrow> real list
   \<Rightarrow> real list list \<Rightarrow> real list \<Rightarrow> (squid_event, unit) run" where
  "squid_analysis env cfg args outpath' bfield ic_p ic_n ibias temp_meas =
     seq (lift (squid_params env cfg args bfield ic_p ic_n temp_meas))
       (\<lambda>(params, boffset, peak_idxs, cyc_per_T, freqs, abs_fft).
     seq (squid_diagnostics args outpath' bfield ic_p ic_n boffset peak_idxs cyc_per_T
            freqs abs_fft) (\<lambda>_.
     seq (squid_uncertainty ibias) (\<lambda>uncertainty.
     seq (if \<not> dry_run args
          then seq (squid_fit env args outpath' bfield ic_p ic_n uncertainty params)
                 (\<lambda>result. ok (Some result))
          else ok None) (\<lambda>result.
     squid_overlay env args outpath' bfield ic_p ic_n params result))))"

text \<open>The whole script after the configuration section is loaded.\<close>

definition fit_squid_oscillations ::
  "squid_env \<Rightarrow> config \<Rightarrow> squid_args \<Rightarrow> (squid_event, unit) run" where
  "fit_squid_oscillations env cfg args =
     seq (squid_paths env cfg) (\<lambda>(inpath, amps_per_t, outpath').
     seq (squid_load env cfg inpath amps_per_t) (\<lambda>(bfield, ibias, dvdi, temp_meas).
     seq (squid_extract env cfg outpath' bfield ibias dvdi) (\<lambda>(bfield, ic_p, ic_n).
     squid_analysis env cfg args outpath' bfield ic_p ic_n ibias temp_meas)))"




section \<open>The current-phase relation\<close>

text \<open>
  Modelled from the spec: \<open>finite_transparency_jj_current\<close> of \<open>shabanipy.squid.cpr\<close>
  is imported by the scripts and is not among the sources. Section 4.7 gives
  \<open>I = amplitude * sin(phi - phi0) / sqrt(1 - transparency * sin((phi - phi0)/2)^2)\<close>.
  The value under the root is \<open>cpr_radicand\<close>; where it is not positive the formula
  has no finite real value, which is \<open>None\<close> here.
\<close>

definition cpr_radicand :: "real \<Rightarrow> real \<Rightarrow> real" where
  "cpr_radicand transparency delta = 1 - transparency * (sin (delta / 2))\<^sup>2"

definition finite_transparency_jj_current :: "real \<Rightarrow> real \<Rightarrow> real \<Rightarrow> real \<Rightarrow> real option" where
  "finite_transparency_jj_current phase anomalous_phase amplitude transparency =
     (if cpr_radicand transparency (phase - anomalous_phase) \<le> 0 then None
      else Some (amplitude * sin (phase - anomalous_phase)
                 / sqrt (cpr_radicand transparency (phase - anomalous_phase))))"

section \<open>A small laboratory to run the scripts on\<close>

text \<open>
  Concrete stand-ins for the libraries and two configuration sections, used to
  evaluate the scripts. Two datasets \<open>a.hdf5\<close> and \<open>b.hdf5\<close> taken at in-plane fields 0
  and 1, whose Fraunhofer centres are 0 and 1/2.
\<close>

definition example_inplane_env :: inplane_env where
  "example_inplane_env =
     \<lparr>parse_float = (\<lambda>s. if s = ''2'' then Some 2 else if s = ''5'' then Some 5 else None),
      open_labber = (\<lambda>path. Inr ()),
      get_data = (\<lambda>path ch_field ch_bias ch_meas.
         if path = ''a.hdf5'' then Inr ([[0, 0, 0], [1, 1, 1]], [[0, 1, 2], [0, 1, 2]],
                                        [[0, 2, 6], [1, 1, 5]])
         else Inr ([[1 / 2, 1 / 2, 1 / 2], [3 / 2, 3 / 2, 3 / 2]], [[0, 1, 2], [0, 1, 2]],
                   [[0, 2, 6], [1, 1, 5]])),
      instrument_config = (\<lambda>path channel key.
         if key = ''Output amplitude'' then Inr 4
         else if path = ''a.hdf5'' then Inr 0 else Inr 1),
      path_stem = (\<lambda>path. takeWhile (\<lambda>c. c \<noteq> CHR ''.'') path),
      repr_float = (\<lambda>x. if x = 0 then ''0.0'' else if x = 1 then ''1.0'' else ''?''),
      extract_switching_current = (\<lambda>ibias dvdi threshold. Inr [1, 2]),
      find_fraunhofer_center = (\<lambda>b_perp ic_p debug. Inr (hd b_perp)),
      polyfit = (\<lambda>xs ys. case least_squares_line xs ys of
                            None \<Rightarrow> Inl (LibraryError ''polyfit'')
                          | Some mb \<Rightarrow> Inr mb)\<rparr>"

definition example_inplane_cfg :: config where
  "example_inplane_cfg =
     [(''DATAPATH1'', ''a.hdf5''), (''DATAPATH2'', ''b.hdf5''),
      (''CH_BIAS'', ''Source - Current''), (''CH_MEAS'', ''VITracer - VI curve''),
      (''CH_MEAS2'', ''DMM - SingleValue''),
      (''CH_FIELD_PERP'', ''Magnet - Field Z''), (''CH_FIELD_INPLANE'', ''Magnet - Field X''),
      (''DC_AMP_GAIN'', ''2''), (''R_AC_OUT'', ''2''), (''R_DC_OUT'', ''5''),
      (''FRIDGE'', ''vector9''), (''THRESHOLD'', ''2''), (''THRESHOLD2'', ''5'')]"

text \<open>The same section with the second path left empty and a third one present.\<close>

definition example_gap_cfg :: config where
  "example_gap_cfg =
     [(''DATAPATH1'', ''a.hdf5''), (''DATAPATH2'', []), (''DATAPATH3'', ''b.hdf5''),
      (''CH_BIAS'', ''Source - Current''), (''CH_MEAS'', ''VITracer - VI curve''),
      (''CH_FIELD_PERP'', ''Magnet - Field Z''), (''CH_FIELD_INPLANE'', ''Magnet - Field X''),
      (''DC_AMP_GAIN'', ''2''), (''FRIDGE'', ''vector9''), (''THRESHOLD'', ''2'')]"

text \<open>
  The same laboratory with a file that answers differently for each pair of channels
  and an extraction whose result is made of the threshold it is given, so that a run
  shows which options reached the library.
\<close>

definition example_override_env :: inplane_env where
  "example_override_env = example_inplane_env
     \<lparr>get_data := (\<lambda>path ch_field ch_bias ch_meas.
         if ch_bias = ''Source - Current'' \<and> ch_meas = ''DMM - SingleValue''
         then Inr ([[1 / 2, 1 / 2, 1 / 2], [3 / 2, 3 / 2, 3 / 2]], [[0, 1, 2], [0, 1, 2]],
                   [[0, 4, 12], [2, 2, 10]])
         else if ch_bias = ''Source - Current'' \<and> ch_meas = ''VITracer - VI curve''
         then Inr ([[0, 0, 0], [1, 1, 1]], [[0, 1, 2], [0, 1, 2]], [[0, 2, 6], [1, 1, 5]])
         else Inl (KeyError ch_meas)),
      extract_switching_current := (\<lambda>ibias dvdi threshold.
         case threshold of None \<Rightarrow> Inl TypeError | Some t \<Rightarrow> Inr [t, 2 * t])\<rparr>"

text \<open>
  A scan taken in the fridge \<open>vector10\<close> with the z coil: three field points recorded as
  coil currents, three bias points each.
\<close>

definition example_squid_env :: squid_env where
  "example_squid_env =
     \<lparr>module_attribute = (\<lambda>name. name \<in> {''__doc__'', ''__name__'', ''__file__''}),
      script_file = ''scripts/fit_squid_oscillations.py'',
      data_dir = Inr ''/data'',
      join_path = (\<lambda>a b. a @ ''/'' @ b),
      float_of = (\<lambda>s. if s = ''2'' then Some 2 else None),
      bool_of = (\<lambda>s. if s = ''true'' then Some True
                        else if s = ''false'' then Some False else None),
      open_data = (\<lambda>path. Inr ()),
      field_data = (\<lambda>path channel. Inr [18.011, 36.022, 54.033]),
      lockin_data = (\<lambda>path channel.
         Inr ([[0, 1, 2], [0, 1, 2], [0, 1, 2]], [[0, 0, 5], [0, 5, 5], [0, 0, 5]])),
      temp_data = (\<lambda>path channel. Inr [3 / 100, 3 / 100, 3 / 100]),
      not_constant = (\<lambda>path channel. False),
      extract_both = (\<lambda>ibias dvdi threshold. Inr ([- 2, - 1, - 3], [2, 1, 3])),
      param_names =
        [''transparency1'', ''transparency2'', ''switching_current1'', ''switching_current2'',
         ''bfield_offset'', ''radians_per_tesla'', ''anom_phase1'', ''anom_phase2'',
         ''temperature'', ''gap'', ''inductance''],
      estimate_boffset = (\<lambda>bfield ic_p ic_n. Inr (- 2, [[1]])),
      estimate_frequency = (\<lambda>bfield ic_p. Inr (1, [0, 1000], [6, 2])),
      model_fit = (\<lambda>both emcee' data weights bfield params.
         Inr \<lparr>result_params = params, best_fit = data\<rparr>),
      model_eval = (\<lambda>both bfield params. Inr (if both then bfield @ bfield else bfield))\<rparr>"

definition example_squid_cfg :: config where
  "example_squid_cfg =
     [(''DATAPATH'', ''vector10/scan.hdf5''), (''FRIDGE'', ''vector10''), (''PERP_AXIS'', ''z''),
      (''WAFER'', ''W1''), (''PIECE'', ''P2''), (''LAYOUT'', ''L3''), (''DEVICE'', ''D4''),
      (''COOLDOWN'', ''C5''), (''SCAN'', ''S6''),
      (''CH_FIELD_PERP'', ''Magnet - Current Z''), (''CH_LOCKIN'', ''Lockin - Value''),
      (''CH_TEMP_MEAS'', ''Fridge - Temperature'')]"



section \<open>Properties\<close>

subsection \<open>Runs\<close>

lemma seq_lift_Inr [simp]: "seq (lift (Inr x)) f = f x"
  by (simp add: seq_def lift_def split: prod.splits)

lemma seq_lift_Inl [simp]: "seq (lift (Inl e)) f = ([], Inl e)"
  by (simp add: seq_def lift_def)

lemma seq_ok [simp]: "seq (ok x) f = f x"
  by (simp add: seq_def ok_def split: prod.splits)

lemma seq_raise [simp]: "seq (raise e) f = ([], Inl e)"
  by (simp add: seq_def raise_def)

lemma seq_emit [simp]: "seq (emit ev) f = (ev # fst (f ()), snd (f ()))"
  by (simp add: seq_def emit_def split: prod.splits)

lemma seq_pair_Inr [simp]: "seq (evs, Inr x) f = (evs @ fst (f x), snd (f x))"
  by (simp add: seq_def split: prod.splits)

lemma seq_pair_Inl [simp]: "seq (evs, Inl e) f = (evs, Inl e)"
  by (simp add: seq_def)

lemma fst_ok [simp]: "fst (ok x) = []" and snd_ok [simp]: "snd (ok x) = Inr x"
  by (simp_all add: ok_def)

lemma fst_emit [simp]: "fst (emit ev) = [ev]" and snd_emit [simp]: "snd (emit ev) = Inr ()"
  by (simp_all add: emit_def)

lemma fst_raise [simp]: "fst (raise e) = []" and snd_raise [simp]: "snd (raise e) = Inl e"
  by (simp_all add: raise_def)

lemma fst_lift [simp]: "fst (lift r) = []" and snd_lift [simp]: "snd (lift r) = r"
  by (simp_all add: lift_def)

lemma bind_Inr [simp]: "bind (Inr x) f = f x"
  by (simp add: bind_def)

lemma bind_Inl [simp]: "bind (Inl e) f = Inl e"
  by (simp add: bind_def)

lemma bind_eq_Inr: "bind m f = Inr y \<longleftrightarrow> (\<exists>x. m = Inr x \<and> f x = Inr y)"
  by (cases m) simp_all

lemma fst_seq: "fst (seq m f) = fst m @ (case snd m of Inl e \<Rightarrow> [] | Inr x \<Rightarrow> fst (f x))"
  by (cases m; cases "snd m") auto

lemma snd_seq: "snd (seq m f) = (case snd m of Inl e \<Rightarrow> Inl e | Inr x \<Rightarrow> snd (f x))"
  by (cases m; cases "snd m") auto

lemma snd_seq_Inr: "snd (seq m f) = Inr y \<longleftrightarrow> (\<exists>x. snd m = Inr x \<and> snd (f x) = Inr y)"
  by (simp add: snd_seq split: sum.splits)

text \<open>A property of every effect of both parts holds for every effect of the sequence.\<close>

lemma list_all_seq:
  "list_all P (fst m) \<Longrightarrow> (\<And>x. snd m = Inr x \<Longrightarrow> list_all P (fst (f x)))
   \<Longrightarrow> list_all P (fst (seq m f))"
  by (simp add: fst_seq split: sum.splits)

subsection \<open>The constants table\<close>

lemma map_of_constants_composite:
  "map_of constants (xs @ ''_AMPS_PER_TESLA_'' @ ys) =
     (if xs = ''VECTOR9'' \<and> ys = ''X'' then Some 35.705
      else if xs = ''VECTOR9'' \<and> ys = ''Y'' then Some 72.575
      else if xs = ''VECTOR9'' \<and> ys = ''Z'' then Some 18.203
      else if xs = ''VECTOR10'' \<and> ys = ''X'' then Some 35.927
      else if xs = ''VECTOR10'' \<and> ys = ''Y'' then Some 74.548
      else if xs = ''VECTOR10'' \<and> ys = ''Z'' then Some 18.0110
      else None)"
  unfolding constants_def
  by (auto simp: append_eq_Cons_conv)

lemma composite_key_never_fourteen_tesla:
  "xs @ ''_AMPS_PER_TESLA_'' @ ys \<noteq> ''FOURTEEN_TESLA_AMPS_PER_TESLA''"
  by (auto simp: append_eq_Cons_conv)

text \<open>A composite key holds capital letters, so it names no attribute of the module type.\<close>

lemma composite_key_not_dunder: "\<not> is_dunder (xs @ ''_AMPS_PER_TESLA_'' @ ys)"
  by (simp add: is_dunder_def)

text \<open>
  C1, as stated, fails twice. The table of section 4.1 has seven entries, not nine.
  And the single-axis constant is stored under a name with no axis suffix, while the
  composite key always carries the separator and the axis: with fridge
  \<open>fourteen_tesla\<close> and an empty axis the key is
  \<open>FOURTEEN_TESLA_AMPS_PER_TESLA_\<close> (trailing underscore), which is not in the table.
\<close>

theorem constants_composite_lookup_counterexample:
  "length constants = 7 \<and> length constants \<noteq> 9 \<and>
   amps_per_tesla_key ''fourteen_tesla'' [] = ''FOURTEEN_TESLA_AMPS_PER_TESLA_'' \<and>
   lookup_amps_per_t (\<lambda>name. True) ''fourteen_tesla'' [] = Inl AttributeError"
  by (simp add: lookup_amps_per_t_def amps_per_tesla_key_def upper_def upper_char_def
      getattr_constants_def constants_def is_dunder_def)

text \<open>
  C1 (amended). The table has seven constants. Lookup by the composite key, which
  upper-cases fridge and axis, returns the literal of the table for exactly the six
  pairs VECTOR9/VECTOR10 times X/Y/Z and fails with AttributeError (the NotFound
  condition) for every other pair, whatever attributes of its own the module
  resolves. The seventh constant, 8.341, is returned by a lookup under its own name
  FOURTEEN_TESLA_AMPS_PER_TESLA, which no composite key equals.
\<close>

theorem constants_lookup:
  "map fst constants =
     [''FOURTEEN_TESLA_AMPS_PER_TESLA'',
      ''VECTOR9_AMPS_PER_TESLA_X'', ''VECTOR9_AMPS_PER_TESLA_Y'', ''VECTOR9_AMPS_PER_TESLA_Z'',
      ''VECTOR10_AMPS_PER_TESLA_X'', ''VECTOR10_AMPS_PER_TESLA_Y'',
      ''VECTOR10_AMPS_PER_TESLA_Z''] \<and>
   getattr_constants resolves ''FOURTEEN_TESLA_AMPS_PER_TESLA'' = Inr (Number 8.341) \<and>
   amps_per_tesla_key fridge axis \<noteq> ''FOURTEEN_TESLA_AMPS_PER_TESLA'' \<and>
   lookup_amps_per_t resolves fridge axis =
     (if upper fridge = ''VECTOR9'' \<and> upper axis = ''X'' then Inr (Number 35.705)
      else if upper fridge = ''VECTOR9'' \<and> upper axis = ''Y'' then Inr (Number 72.575)
      else if upper fridge = ''VECTOR9'' \<and> upper axis = ''Z'' then Inr (Number 18.203)
      else if upper fridge = ''VECTOR10'' \<and> upper axis = ''X'' then Inr (Number 35.927)
      else if upper fridge = ''VECTOR10'' \<and> upper axis = ''Y'' then Inr (Number 74.548)
      else if upper fridge = ''VECTOR10'' \<and> upper axis = ''Z'' then Inr (Number 18.0110)
      else Inl AttributeError)"
proof -
  have names: "map fst constants =
     [''FOURTEEN_TESLA_AMPS_PER_TESLA'',
      ''VECTOR9_AMPS_PER_TESLA_X'', ''VECTOR9_AMPS_PER_TESLA_Y'', ''VECTOR9_AMPS_PER_TESLA_Z'',
      ''VECTOR10_AMPS_PER_TESLA_X'', ''VECTOR10_AMPS_PER_TESLA_Y'',
      ''VECTOR10_AMPS_PER_TESLA_Z'']"
    by (simp add: constants_def)
  have single: "getattr_constants resolves ''FOURTEEN_TESLA_AMPS_PER_TESLA'' = Inr (Number 8.341)"
    by (simp add: getattr_constants_def constants_def)
  have unreachable: "amps_per_tesla_key fridge axis \<noteq> ''FOURTEEN_TESLA_AMPS_PER_TESLA''"
    unfolding amps_per_tesla_key_def by (rule composite_key_never_fourteen_tesla)
  have composite: "lookup_amps_per_t resolves fridge axis =
     (if upper fridge = ''VECTOR9'' \<and> upper axis = ''X'' then Inr (Number 35.705)
      else if upper fridge = ''VECTOR9'' \<and> upper axis = ''Y'' then Inr (Number 72.575)
      else if upper fridge = ''VECTOR9'' \<and> upper axis = ''Z'' then Inr (Number 18.203)
      else if upper fridge = ''VECTOR10'' \<and> upper axis = ''X'' then Inr (Number 35.927)
      else if upper fridge = ''VECTOR10'' \<and> upper axis = ''Y'' then Inr (Number 74.548)
      else if upper fridge = ''VECTOR10'' \<and> upper axis = ''Z'' then Inr (Number 18.0110)
      else Inl AttributeError)"
    unfolding lookup_amps_per_t_def getattr_constants_def amps_per_tesla_key_def
      map_of_constants_composite
    using composite_key_not_dunder [of "upper fridge" "upper axis"]
    by simp
  from names single unreachable composite show ?thesis
    by (intro conjI)
qed

theorem constants_lookup_witness:
  "lookup_amps_per_t (\<lambda>name. True) ''vector10'' ''z'' = Inr (Number 18.0110) \<and>
   lookup_amps_per_t (\<lambda>name. True) ''Vector9'' ''y'' = Inr (Number 72.575) \<and>
   lookup_amps_per_t (\<lambda>name. True) ''vector9'' ''w'' = Inl AttributeError \<and>
   lookup_amps_per_t (\<lambda>name. True) ''fourteen_tesla'' ''x'' = Inl AttributeError \<and>
   getattr_constants (\<lambda>name. True) ''FOURTEEN_TESLA_AMPS_PER_TESLA'' = Inr (Number 8.341)"
proof -
  have up: "upper ''vector10'' = ''VECTOR10''" "upper ''z'' = ''Z''"
      "upper ''Vector9'' = ''VECTOR9''" "upper ''y'' = ''Y''"
      "upper ''vector9'' = ''VECTOR9''" "upper ''w'' = ''W''"
      "upper ''fourteen_tesla'' = ''FOURTEEN_TESLA''" "upper ''x'' = ''X''"
    by (simp_all add: upper_def upper_char_def)
  have a: "lookup_amps_per_t (\<lambda>name. True) ''vector10'' ''z'' = Inr (Number 18.0110)"
    using constants_lookup [of "\<lambda>name. True" "''vector10''" "''z''"] by (simp add: up)
  have b: "lookup_amps_per_t (\<lambda>name. True) ''Vector9'' ''y'' = Inr (Number 72.575)"
    using constants_lookup [of "\<lambda>name. True" "''Vector9''" "''y''"] by (simp add: up)
  have c: "lookup_amps_per_t (\<lambda>name. True) ''vector9'' ''w'' = Inl AttributeError"
    using constants_lookup [of "\<lambda>name. True" "''vector9''" "''w''"] by (simp add: up)
  have d: "lookup_amps_per_t (\<lambda>name. True) ''fourteen_tesla'' ''x'' = Inl AttributeError"
    using constants_lookup [of "\<lambda>name. True" "''fourteen_tesla''" "''x''"] by (simp add: up)
  have e: "getattr_constants (\<lambda>name. True) ''FOURTEEN_TESLA_AMPS_PER_TESLA''
      = Inr (Number 8.341)"
    using constants_lookup [of "\<lambda>name. True" "''vector9''" "''w''"] by blast
  from a b c d e show ?thesis by (intro conjI)
qed

subsection \<open>The dataset loop of the alignment script ends\<close>

lemma str_nat_width: "n < 10 ^ length (str_nat n)"
proof (induction n rule: str_nat.induct)
  case (1 n)
  show ?case
  proof (cases "n < 10")
    case True
    then show ?thesis by (simp add: str_nat.simps)
  next
    case False
    with 1 have "n div 10 < 10 ^ length (str_nat (n div 10))" by simp
    then have "n < 10 * 10 ^ length (str_nat (n div 10))" by linarith
    with False show ?thesis by (simp add: str_nat.simps [of n])
  qed
qed

lemma fold_max_ge: "(x::nat) \<in> set xs \<Longrightarrow> x \<le> fold max xs a"
  using Max.set_eq_fold [of a xs] Max_ge [of "set (a # xs)" x] by simp

lemma key_width_ge: "map_of cfg k = Some v \<Longrightarrow> length k \<le> key_width cfg"
  unfolding key_width_def
  by (rule fold_max_ge) (force dest: map_of_SomeD)

lemma truthy_index_bound:
  assumes "truthy (cfg_get cfg (base @ str_nat i))"
  shows "i < 10 ^ key_width cfg"
proof -
  from assms obtain v where "map_of cfg (base @ str_nat i) = Some v"
    by (cases "map_of cfg (base @ str_nat i)") (simp_all add: cfg_get_def)
  then have "length (base @ str_nat i) \<le> key_width cfg" by (rule key_width_ge)
  then have "length (str_nat i) \<le> key_width cfg" by simp
  then have "(10::nat) ^ length (str_nat i) \<le> 10 ^ key_width cfg"
    by (simp add: power_increasing)
  with str_nat_width [of i] show ?thesis by linarith
qed

termination datasets_loop
proof (relation "measure (\<lambda>(env, cfg, args, i, st). 10 ^ key_width cfg - i)")
  show "wf (measure (\<lambda>(env, cfg, args, i, st). 10 ^ key_width cfg - i))"
    by simp
next
  fix env :: inplane_env and cfg :: config and args :: inplane_args and i :: nat
    and st st' :: inplane_state
  assume "truthy (cfg_get cfg (''DATAPATH'' @ str_nat i))"
  then have "i < 10 ^ key_width cfg" by (rule truthy_index_bound)
  then show "((env, cfg, args, Suc i, st'), env, cfg, args, i, st)
      \<in> measure (\<lambda>(env, cfg, args, i, st). 10 ^ key_width cfg - i)"
    by simp
qed

declare datasets_loop.simps [simp del]

subsection \<open>Which datasets the alignment script reads\<close>

lemma str_nat_nonempty: "str_nat n \<noteq> []"
  by (subst str_nat.simps) simp

lemma digit_char_inj: "d < 10 \<Longrightarrow> e < 10 \<Longrightarrow> digit_char d = digit_char e \<Longrightarrow> d = e"
  unfolding digit_char_def
  by (subst (asm) nth_eq_iff_index_eq) simp_all

lemma str_nat_inj: "str_nat m = str_nat n \<Longrightarrow> m = n"
proof (induction m arbitrary: n rule: str_nat.induct)
  case (1 m)
  show ?case
  proof (cases "m < 10")
    case small: True
    show ?thesis
    proof (cases "n < 10")
      case True
      with small "1.prems" show ?thesis
        by (simp add: str_nat.simps [of m] str_nat.simps [of n] digit_char_inj)
    next
      case False
      with small "1.prems" str_nat_nonempty [of "n div 10"] show ?thesis
        by (simp add: str_nat.simps [of m] str_nat.simps [of n])
    qed
  next
    case big: False
    show ?thesis
    proof (cases "n < 10")
      case True
      with big "1.prems" str_nat_nonempty [of "m div 10"] show ?thesis
        by (simp add: str_nat.simps [of m] str_nat.simps [of n])
    next
      case False
      with big "1.prems" have eq: "str_nat (m div 10) = str_nat (n div 10)"
        and d: "digit_char (m mod 10) = digit_char (n mod 10)"
        by (simp_all add: str_nat.simps [of m] str_nat.simps [of n])
      from "1.IH" [OF big eq] have "m div 10 = n div 10" .
      moreover from d have "m mod 10 = n mod 10" by (simp add: digit_char_inj)
      ultimately show ?thesis by (metis div_mult_mod_eq)
    qed
  qed
qed

lemma loop_step:
  "truthy (cfg_get cfg (''DATAPATH'' @ str_nat i)) \<Longrightarrow>
   datasets_loop env cfg args i st =
     seq (dataset_body env cfg args i st) (\<lambda>st'. datasets_loop env cfg args (Suc i) st')"
  by (subst datasets_loop.simps) (simp add: seq_def split: prod.splits sum.splits)

lemma loop_stop:
  "\<not> truthy (cfg_get cfg (''DATAPATH'' @ str_nat i)) \<Longrightarrow>
   datasets_loop env cfg args i st = ok st"
  by (subst datasets_loop.simps) (simp add: ok_def)

lemma loop_unroll:
  assumes "\<forall>j. i \<le> j \<and> j < n \<longrightarrow> truthy (cfg_get cfg (''DATAPATH'' @ str_nat j))"
    and "\<not> truthy (cfg_get cfg (''DATAPATH'' @ str_nat n))"
    and "i \<le> n"
  shows "datasets_loop env cfg args i st = run_datasets env cfg args [i..<n] st"
  using assms
proof (induction "n - i" arbitrary: i st)
  case 0
  then have "i = n" by simp
  with "0.prems"(2) show ?case by (simp add: loop_stop)
next
  case (Suc k)
  then have lt: "i < n" by simp
  with Suc.prems(1) have t: "truthy (cfg_get cfg (''DATAPATH'' @ str_nat i))" by simp
  have ih: "datasets_loop env cfg args (Suc i) st' = run_datasets env cfg args [Suc i..<n] st'"
    for st'
    using Suc.hyps(1) [of "Suc i" st'] Suc.hyps(2) Suc.prems lt by simp
  show ?case
    using lt by (simp add: loop_step [OF t] ih upt_conv_Cons)
qed

lemma truthy_iff: "truthy (cfg_get cfg key) \<longleftrightarrow> (\<exists>v. map_of cfg key = Some v \<and> v \<noteq> [])"
  by (cases "map_of cfg key") (simp_all add: cfg_get_def)

text \<open>No option read for a dataset up to \<open>n\<close> is a later key.\<close>

lemma base_not_later:
  "key \<in> {''CH_BIAS'', ''CH_MEAS'', ''CH_FIELD_PERP'', ''CH_FIELD_INPLANE'', ''DC_AMP_GAIN'',
           ''R_AC_OUT'', ''R_DC_OUT'', ''FRIDGE'', ''VMIN'', ''VMAX'', ''THRESHOLD''}
   \<Longrightarrow> \<not> later_key n key"
  using str_nat_nonempty [symmetric] by (auto simp: later_key_def)

lemma indexed_not_later:
  "i \<le> n \<Longrightarrow> base \<in> {''DATAPATH'', ''CH_BIAS'', ''CH_MEAS'', ''THRESHOLD''}
   \<Longrightarrow> \<not> later_key n (base @ str_nat i)"
  by (auto simp: later_key_def dest!: str_nat_inj)

lemma body_cong:
  assumes agree: "\<forall>key. \<not> later_key n key \<longrightarrow> map_of cfg' key = map_of cfg key"
    and le: "i \<le> n"
  shows "dataset_body env cfg' args i st = dataset_body env cfg args i st"
proof -
  have base: "map_of cfg' key = map_of cfg key"
    if "key \<in> {''CH_BIAS'', ''CH_MEAS'', ''CH_FIELD_PERP'', ''CH_FIELD_INPLANE'', ''DC_AMP_GAIN'',
           ''R_AC_OUT'', ''R_DC_OUT'', ''FRIDGE'', ''VMIN'', ''VMAX'', ''THRESHOLD''}" for key
    using agree base_not_later [OF that] by blast
  have indexed: "map_of cfg' (b @ str_nat i) = map_of cfg (b @ str_nat i)"
    if "b \<in> {''DATAPATH'', ''CH_BIAS'', ''CH_MEAS'', ''THRESHOLD''}" for b
    using agree indexed_not_later [OF le that] by blast
  have item: "cfg_item cfg' key = cfg_item cfg key" if "map_of cfg' key = map_of cfg key" for key
    using that by (simp add: cfg_item_def)
  have getfloat: "cfg_getfloat p cfg' key fb = cfg_getfloat p cfg key fb"
    if "map_of cfg' key = map_of cfg key" for key p fb
    using that by (simp add: cfg_getfloat_def)
  have channel: "resolve_channel cfg' b i = resolve_channel cfg b i"
    if "b \<in> {''CH_BIAS'', ''CH_MEAS''}" for b
  proof -
    from that have "map_of cfg' b = map_of cfg b" by (intro base) auto
    moreover from that have "map_of cfg' (b @ str_nat i) = map_of cfg (b @ str_nat i)"
      by (intro indexed) auto
    ultimately show ?thesis
      by (simp add: resolve_channel_def cfg_item_def cfg_get_fallback_def)
  qed
  have threshold: "resolve_threshold p cfg' i = resolve_threshold p cfg i" for p
    using getfloat [OF base, of "''THRESHOLD''"] getfloat [OF indexed, of "''THRESHOLD''"]
    by (simp add: resolve_threshold_def)
  have dvdi: "compute_dvdi env cfg' = compute_dvdi env cfg"
    using getfloat [OF base, of "''DC_AMP_GAIN''"] getfloat [OF base, of "''R_AC_OUT''"]
      getfloat [OF base, of "''R_DC_OUT''"]
    by (intro ext) (simp add: compute_dvdi_def)
  have items: "cfg_item cfg' (''DATAPATH'' @ str_nat i) = cfg_item cfg (''DATAPATH'' @ str_nat i)"
    "cfg_item cfg' ''CH_FIELD_PERP'' = cfg_item cfg ''CH_FIELD_PERP''"
    "cfg_item cfg' ''CH_FIELD_INPLANE'' = cfg_item cfg ''CH_FIELD_INPLANE''"
    "cfg_item cfg' ''FRIDGE'' = cfg_item cfg ''FRIDGE''"
    by (intro item indexed base; simp)+
  have floats: "cfg_getfloat p cfg' ''VMIN'' None = cfg_getfloat p cfg ''VMIN'' None"
    "cfg_getfloat p cfg' ''VMAX'' None = cfg_getfloat p cfg ''VMAX'' None" for p
    by (intro getfloat base; simp)+
  have channels: "resolve_channel cfg' ''CH_BIAS'' i = resolve_channel cfg ''CH_BIAS'' i"
    "resolve_channel cfg' ''CH_MEAS'' i = resolve_channel cfg ''CH_MEAS'' i"
    by (intro channel; simp)+
  show ?thesis
    unfolding dataset_body_def items floats channels threshold dvdi ..
qed

lemma run_datasets_cong:
  assumes "\<forall>key. \<not> later_key n key \<longrightarrow> map_of cfg' key = map_of cfg key"
    and "\<forall>i\<in>set is. i \<le> n"
  shows "run_datasets env cfg' args is st = run_datasets env cfg args is st"
  using assms(2)
proof (induction "is" arbitrary: st)
  case Nil
  show ?case by simp
next
  case (Cons i "is")
  then have body: "dataset_body env cfg' args i st = dataset_body env cfg args i st"
    using body_cong [OF assms(1)] by simp
  have rest: "run_datasets env cfg' args is = run_datasets env cfg args is"
    using Cons by (intro ext) simp
  show ?case by (simp add: body rest)
qed

lemma later_keys_unread:
  assumes n: "1 \<le> n"
    and run: "\<forall>j\<in>{1..<n}. truthy (cfg_get cfg (''DATAPATH'' @ str_nat j))"
    and stop: "\<not> truthy (cfg_get cfg (''DATAPATH'' @ str_nat n))"
    and agree: "\<forall>key. \<not> later_key n key \<longrightarrow> map_of cfg' key = map_of cfg key"
  shows "datasets_loop env cfg' args 1 st = datasets_loop env cfg args 1 st"
proof -
  define t where "t c j = truthy (cfg_get c (''DATAPATH'' @ str_nat j))" for c :: config and j
  have same: "t cfg' j = t cfg j" if "j \<le> n" for j
    using agree indexed_not_later [OF that, of "''DATAPATH''"]
    unfolding t_def cfg_get_def by simp
  have run_all: "\<forall>j. 1 \<le> j \<and> j < n \<longrightarrow> t cfg j"
    using run unfolding t_def by auto
  have run_all': "\<forall>j. 1 \<le> j \<and> j < n \<longrightarrow> t cfg' j"
    using run_all same by auto
  have stop': "\<not> t cfg' n"
    using stop same [of n] unfolding t_def by simp
  have "datasets_loop env cfg' args 1 st = run_datasets env cfg' args [1..<n] st"
    using run_all' stop' n unfolding t_def by (rule loop_unroll)
  also have "\<dots> = run_datasets env cfg args [1..<n] st"
    using agree by (rule run_datasets_cong) simp
  also have "\<dots> = datasets_loop env cfg args 1 st"
    using run_all stop n unfolding t_def by (rule loop_unroll [symmetric])
  finally show ?thesis .
qed

lemmas inplane_eval =
  inplane_main_def datasets_loop.simps dataset_body_def field_alignment_def
  resolve_channel_def resolve_threshold_def compute_dvdi_def cfg_item_def cfg_get_def
  cfg_get_fallback_def cfg_getfloat_def str_nat.simps digit_char_def endswith_def split_def
  gradient_def gradient_row_def divide_arrays_def divide_scalar_def divide_float_def
  np_abs_def unique_def rint_def misalignment_mdeg_def np_round_def degrees_def
  example_inplane_env_def example_inplane_cfg_def example_gap_cfg_def least_squares_line_def
  Let_def

text \<open>What a pass of the loop body that raises nothing has called, drawn and stored.\<close>

lemma body_uses_resolved:
  assumes "dataset_body env cfg args i st = (evs, Inr st')"
  shows "\<exists>ch_bias ch_meas datapath ch_field_perp b_perp ibias meas dvdi label ibias'
            threshold ic_p center.
           resolve_channel cfg ''CH_BIAS'' i = Inr ch_bias \<and>
           resolve_channel cfg ''CH_MEAS'' i = Inr ch_meas \<and>
           map_of cfg (''DATAPATH'' @ str_nat i) = Some datapath \<and>
           map_of cfg ''CH_FIELD_PERP'' = Some ch_field_perp \<and>
           get_data env datapath ch_field_perp ch_bias ch_meas = Inr (b_perp, ibias, meas) \<and>
           compute_dvdi env cfg datapath ch_meas meas ibias = Inr (dvdi, label, ibias') \<and>
           resolve_threshold (parse_float env) cfg i = Inr threshold \<and>
           extract_switching_current env ibias' dvdi threshold = Inr ic_p \<and>
           find_fraunhofer_center env (unique b_perp) ic_p (debug args) = Inr center \<and>
           Ax_plot (map (\<lambda>x. x / 0.001) (unique b_perp)) (map (\<lambda>x. x / 0.000001) ic_p)
             \<in> set evs \<and>
           Axvline (center / 0.001) \<in> set evs \<and>
           fraun_center st' = fraun_center st @ [center]"
proof -
  from assms have s: "snd (dataset_body env cfg args i st) = Inr st'" by simp
  from assms have f: "fst (dataset_body env cfg args i st) = evs" by simp
  from s obtain ch_bias ch_meas datapath ch_field_perp b_perp ibias meas ch_field_inplane pieces
      inplane dvdi label ibias' fridge vmin vmax threshold ic_p center
    where v: "resolve_channel cfg ''CH_BIAS'' i = Inr ch_bias"
      "resolve_channel cfg ''CH_MEAS'' i = Inr ch_meas"
      "cfg_item cfg (''DATAPATH'' @ str_nat i) = Inr datapath"
      "open_labber env datapath = Inr ()"
      "cfg_item cfg ''CH_FIELD_PERP'' = Inr ch_field_perp"
      "get_data env datapath ch_field_perp ch_bias ch_meas = Inr (b_perp, ibias, meas)"
      "cfg_item cfg ''CH_FIELD_INPLANE'' = Inr ch_field_inplane"
      "split ch_field_inplane '' - '' = Inr pieces"
      "instrument_config env datapath ch_field_inplane (last pieces) = Inr inplane"
      "compute_dvdi env cfg datapath ch_meas meas ibias = Inr (dvdi, label, ibias')"
      "cfg_item cfg ''FRIDGE'' = Inr fridge"
      "cfg_getfloat (parse_float env) cfg ''VMIN'' None = Inr vmin"
      "cfg_getfloat (parse_float env) cfg ''VMAX'' None = Inr vmax"
      "resolve_threshold (parse_float env) cfg i = Inr threshold"
      "extract_switching_current env ibias' dvdi threshold = Inr ic_p"
      "find_fraunhofer_center env (unique b_perp) ic_p (debug args) = Inr center"
    unfolding dataset_body_def
    by (auto simp: snd_seq_Inr split: prod.splits)
  have "fst (dataset_body env cfg args i st) =
      [Mkdir ''output'',
       Plot2d (map (map (\<lambda>x. x / 0.001)) b_perp) (map (map (\<lambda>x. x / 0.000001)) ibias')
         dvdi label (rint (inplane / 0.001)) (fridge @ ''/'' @ datapath) vmin vmax,
       Ax_plot (map (\<lambda>x. x / 0.001) (unique b_perp)) (map (\<lambda>x. x / 0.000001) ic_p),
       Axvline (center / 0.001),
       Savefig (''output/'' @ path_stem env datapath @ ''_inplane='' @ repr_float env inplane
                @ ''_fraun-center.png'')]"
    and "snd (dataset_body env cfg args i st) =
      Inr (st\<lparr>b_inplane := b_inplane st @ [inplane],
               fraun_center := fraun_center st @ [center],
               outpath := Some (''output/'' @ path_stem env datapath @ ''_inplane=''
                                @ repr_float env inplane)\<rparr>)"
    unfolding dataset_body_def by (simp_all add: v v(3) [simplified])
  with s f have "Ax_plot (map (\<lambda>x. x / 0.001) (unique b_perp)) (map (\<lambda>x. x / 0.000001) ic_p)
             \<in> set evs" "Axvline (center / 0.001) \<in> set evs"
      "fraun_center st' = fraun_center st @ [center]"
    by auto
  with v show ?thesis by (auto simp: cfg_item_def split: option.splits)
qed

text \<open>
  C3, as stated, fails: the loop tests the truth value of \<open>config.get(f"DATAPATH{i}")\<close>,
  so it also stops at an option that is present but empty. In the section below
  \<open>DATAPATH2\<close> is present (and empty), \<open>DATAPATH3\<close> is present, the first absent index is
  4, and the script processes dataset 1 only.
\<close>

theorem enumeration_stops_at_empty_path_counterexample:
  "map_of example_gap_cfg ''DATAPATH2'' = Some [] \<and>
   map_of example_gap_cfg ''DATAPATH3'' = Some ''b.hdf5'' \<and>
   map_of example_gap_cfg ''DATAPATH4'' = None \<and>
   inplane_main example_inplane_env example_gap_cfg \<lparr>align = False, debug = False\<rparr> =
     ([Mkdir ''output'',
       Plot2d [[0, 0, 0], [1000, 1000, 1000]] [[0, 1000000, 2000000], [0, 1000000, 2000000]]
         [[1, 3 / 2, 2], [0, 1, 2]] Delta_V_over_Delta_I 0 ''vector9/a.hdf5'' None None,
       Ax_plot [0, 1000] [1000000, 2000000],
       Axvline 0,
       Savefig ''output/a_inplane=0.0_fraun-center.png'',
       Show],
      Inr ())"
  by (simp add: inplane_eval)

text \<open>
  C3 (amended). Dataset enumeration is 1-indexed and stops at the first index \<open>n\<close> for
  which \<open>DATAPATH{n}\<close> is absent or empty: the loop is the loop body run for the indices
  1 to \<open>n - 1\<close> in order. The options with a later index are never read: changing,
  adding or removing \<open>DATAPATH{j}\<close>, \<open>CH_BIAS{j}\<close>, \<open>CH_MEAS{j}\<close> or \<open>THRESHOLD{j}\<close> for
  \<open>j > n\<close> changes nothing in what the script does. For a dataset \<open>i\<close>, when the base
  option (\<open>CH_BIAS\<close>, \<open>CH_MEAS\<close>) is defined, the suffixed option is used when defined
  and the base option otherwise; likewise \<open>THRESHOLD{i}\<close> is used when defined and
  otherwise \<open>THRESHOLD\<close> (when that one, if present, is a float). These are the values
  the loop body works with: a pass for dataset \<open>i\<close> that raises nothing has read the file
  \<open>DATAPATH{i}\<close> with the bias and measurement channels so resolved, has computed
  dV/dI for that measurement channel, and has extracted the switching current with
  the threshold so resolved; the curve and the centre line it draws, and the centre it
  records, come from that extraction.
\<close>

theorem dataset_enumeration:
  assumes "1 \<le> n"
    and "\<forall>j\<in>{1..<n}. \<exists>v. map_of cfg (''DATAPATH'' @ str_nat j) = Some v \<and> v \<noteq> []"
    and "map_of cfg (''DATAPATH'' @ str_nat n) = None \<or>
         map_of cfg (''DATAPATH'' @ str_nat n) = Some []"
  shows "datasets_loop env cfg args 1 st = run_datasets env cfg args [1..<n] st \<and>
         ((\<forall>key. \<not> later_key n key \<longrightarrow> map_of cfg' key = map_of cfg key) \<longrightarrow>
            inplane_main env cfg' args = inplane_main env cfg args) \<and>
         (\<forall>base fallback. map_of cfg base = Some fallback \<longrightarrow>
            resolve_channel cfg base i =
              Inr (case map_of cfg (base @ str_nat i) of None \<Rightarrow> fallback | Some v \<Rightarrow> v)) \<and>
         (\<forall>fallback. cfg_getfloat parse cfg ''THRESHOLD'' None = Inr fallback \<longrightarrow>
            resolve_threshold parse cfg i =
              (case map_of cfg (''THRESHOLD'' @ str_nat i) of
                 None \<Rightarrow> Inr fallback
               | Some v \<Rightarrow> (case parse v of None \<Rightarrow> Inl ValueError | Some x \<Rightarrow> Inr (Some x)))) \<and>
         (\<forall>evs st'. dataset_body env cfg args i st = (evs, Inr st') \<longrightarrow>
            (\<exists>ch_bias ch_meas datapath ch_field_perp b_perp ibias meas dvdi label ibias'
                threshold ic_p center.
               resolve_channel cfg ''CH_BIAS'' i = Inr ch_bias \<and>
               resolve_channel cfg ''CH_MEAS'' i = Inr ch_meas \<and>
               map_of cfg (''DATAPATH'' @ str_nat i) = Some datapath \<and>
               map_of cfg ''CH_FIELD_PERP'' = Some ch_field_perp \<and>
               get_data env datapath ch_field_perp ch_bias ch_meas = Inr (b_perp, ibias, meas) \<and>
               compute_dvdi env cfg datapath ch_meas meas ibias = Inr (dvdi, label, ibias') \<and>
               resolve_threshold (parse_float env) cfg i = Inr threshold \<and>
               extract_switching_current env ibias' dvdi threshold = Inr ic_p \<and>
               find_fraunhofer_center env (unique b_perp) ic_p (debug args) = Inr center \<and>
               Ax_plot (map (\<lambda>x. x / 0.001) (unique b_perp)) (map (\<lambda>x. x / 0.000001) ic_p)
                 \<in> set evs \<and>
               Axvline (center / 0.001) \<in> set evs \<and>
               fraun_center st' = fraun_center st @ [center]))"
proof -
  have run: "\<forall>j\<in>{1..<n}. truthy (cfg_get cfg (''DATAPATH'' @ str_nat j))"
    using assms(2) unfolding truthy_iff .
  have stop: "\<not> truthy (cfg_get cfg (''DATAPATH'' @ str_nat n))"
    using assms(3) unfolding truthy_iff by auto
  have run_all: "\<forall>j. 1 \<le> j \<and> j < n \<longrightarrow> truthy (cfg_get cfg (''DATAPATH'' @ str_nat j))"
    using run by auto
  have unroll: "datasets_loop env cfg args 1 st = run_datasets env cfg args [1..<n] st"
    using run_all stop assms(1) by (rule loop_unroll)
  have unread: "inplane_main env cfg' args = inplane_main env cfg args"
    if "\<forall>key. \<not> later_key n key \<longrightarrow> map_of cfg' key = map_of cfg key"
    unfolding inplane_main_def later_keys_unread [OF assms(1) run stop that] ..
  have channel: "resolve_channel cfg base i =
      Inr (case map_of cfg (base @ str_nat i) of None \<Rightarrow> fallback | Some v \<Rightarrow> v)"
    if "map_of cfg base = Some fallback" for base fallback
    using that by (simp add: resolve_channel_def cfg_item_def cfg_get_fallback_def)
  have threshold: "resolve_threshold parse cfg i =
      (case map_of cfg (''THRESHOLD'' @ str_nat i) of
         None \<Rightarrow> Inr fallback
       | Some v \<Rightarrow> (case parse v of None \<Rightarrow> Inl ValueError | Some x \<Rightarrow> Inr (Some x)))"
    if "cfg_getfloat parse cfg ''THRESHOLD'' None = Inr fallback" for fallback
    using that by (simp add: resolve_threshold_def cfg_getfloat_def)
  have body: "\<exists>ch_bias ch_meas datapath ch_field_perp b_perp ibias meas dvdi label ibias'
                threshold ic_p center.
               resolve_channel cfg ''CH_BIAS'' i = Inr ch_bias \<and>
               resolve_channel cfg ''CH_MEAS'' i = Inr ch_meas \<and>
               map_of cfg (''DATAPATH'' @ str_nat i) = Some datapath \<and>
               map_of cfg ''CH_FIELD_PERP'' = Some ch_field_perp \<and>
               get_data env datapath ch_field_perp ch_bias ch_meas = Inr (b_perp, ibias, meas) \<and>
               compute_dvdi env cfg datapath ch_meas meas ibias = Inr (dvdi, label, ibias') \<and>
               resolve_threshold (parse_float env) cfg i = Inr threshold \<and>
               extract_switching_current env ibias' dvdi threshold = Inr ic_p \<and>
               find_fraunhofer_center env (unique b_perp) ic_p (debug args) = Inr center \<and>
               Ax_plot (map (\<lambda>x. x / 0.001) (unique b_perp)) (map (\<lambda>x. x / 0.000001) ic_p)
                 \<in> set evs \<and>
               Axvline (center / 0.001) \<in> set evs \<and>
               fraun_center st' = fraun_center st @ [center]"
    if "dataset_body env cfg args i st = (evs, Inr st')" for evs st'
    using that by (rule body_uses_resolved)
  show ?thesis
  proof (intro conjI allI impI)
    show "datasets_loop env cfg args 1 st = run_datasets env cfg args [1..<n] st"
      by (rule unroll)
  qed (fact unread channel threshold body)+
qed

theorem dataset_enumeration_witness:
  "datasets_loop example_inplane_env example_inplane_cfg \<lparr>align = True, debug = False\<rparr> 1
     \<lparr>b_inplane = [], fraun_center = [], outpath = None\<rparr>
   = run_datasets example_inplane_env example_inplane_cfg \<lparr>align = True, debug = False\<rparr> [1, 2]
       \<lparr>b_inplane = [], fraun_center = [], outpath = None\<rparr> \<and>
   inplane_main example_inplane_env ((''DATAPATH7'', ''c.hdf5'') # example_inplane_cfg)
       \<lparr>align = True, debug = False\<rparr>
   = inplane_main example_inplane_env example_inplane_cfg \<lparr>align = True, debug = False\<rparr> \<and>
   resolve_channel example_inplane_cfg ''CH_MEAS'' 2 = Inr ''DMM - SingleValue'' \<and>
   resolve_channel example_inplane_cfg ''CH_BIAS'' 2 = Inr ''Source - Current'' \<and>
   resolve_threshold (parse_float example_inplane_env) example_inplane_cfg 2 = Inr (Some 5) \<and>
   resolve_threshold (parse_float example_inplane_env) example_inplane_cfg 1 = Inr (Some 2) \<and>
   (\<exists>b_perp ibias meas dvdi label ibias' center evs st'.
      dataset_body example_override_env example_inplane_cfg \<lparr>align = True, debug = False\<rparr> 2
        \<lparr>b_inplane = [], fraun_center = [], outpath = None\<rparr> = (evs, Inr st') \<and>
      get_data example_override_env ''b.hdf5'' ''Magnet - Field Z'' ''Source - Current''
        ''DMM - SingleValue'' = Inr (b_perp, ibias, meas) \<and>
      compute_dvdi example_override_env example_inplane_cfg ''b.hdf5'' ''DMM - SingleValue''
        meas ibias = Inr (dvdi, label, ibias') \<and>
      extract_switching_current example_override_env ibias' dvdi (Some 5) = Inr [5, 10] \<and>
      Ax_plot (map (\<lambda>x. x / 0.001) (unique b_perp)) [5000000, 10000000] \<in> set evs \<and>
      fraun_center st' = [center])"
proof -
  have s: "str_nat 1 = ''1''" "str_nat 2 = ''2''" "str_nat 3 = ''3''" "str_nat 7 = ''7''"
      "str_nat (Suc 0) = ''1''"
    by (simp_all add: str_nat.simps digit_char_def)
  have range: "{1..<3::nat} = {1, 2}" by auto
  have n: "(1::nat) \<le> 3" by simp
  have run: "\<forall>j\<in>{1..<3}. \<exists>v. map_of example_inplane_cfg (''DATAPATH'' @ str_nat j) = Some v
      \<and> v \<noteq> []"
    unfolding range by (simp add: s example_inplane_cfg_def)
  have stop: "map_of example_inplane_cfg (''DATAPATH'' @ str_nat 3) = None \<or>
      map_of example_inplane_cfg (''DATAPATH'' @ str_nat 3) = Some []"
    by (simp add: s example_inplane_cfg_def)
  have later: "later_key 3 ''DATAPATH7''"
    unfolding later_key_def by (rule exI [of _ 7]) (simp add: s)
  have agree: "\<forall>key. \<not> later_key 3 key \<longrightarrow>
      map_of ((''DATAPATH7'', ''c.hdf5'') # example_inplane_cfg) key
      = map_of example_inplane_cfg key"
    using later by auto
  have bias: "map_of example_inplane_cfg ''CH_BIAS'' = Some ''Source - Current''"
    and meas: "map_of example_inplane_cfg ''CH_MEAS'' = Some ''VITracer - VI curve''"
    and meas2: "map_of example_inplane_cfg (''CH_MEAS'' @ str_nat 2) = Some ''DMM - SingleValue''"
    and bias2: "map_of example_inplane_cfg (''CH_BIAS'' @ str_nat 2) = None"
    and thr: "cfg_getfloat (parse_float example_inplane_env) example_inplane_cfg
      ''THRESHOLD'' None = Inr (Some 2)"
    and thr2: "map_of example_inplane_cfg (''THRESHOLD'' @ str_nat 2) = Some ''5''"
    and thr1: "map_of example_inplane_cfg (''THRESHOLD'' @ str_nat 1) = None"
    and p5: "parse_float example_inplane_env ''5'' = Some 5"
    by (simp_all add: s example_inplane_cfg_def example_inplane_env_def cfg_getfloat_def)
  note at2 = dataset_enumeration [OF n run stop, where i = 2
      and parse = "parse_float example_inplane_env"
      and cfg' = "(''DATAPATH7'', ''c.hdf5'') # example_inplane_cfg"]
  note at1 = dataset_enumeration [OF n run stop, where i = 1
      and parse = "parse_float example_inplane_env"
      and cfg' = "(''DATAPATH7'', ''c.hdf5'') # example_inplane_cfg"]
  have up: "[1..<3] = [1, 2]" by (simp add: upt_rec)
  have a: "datasets_loop example_inplane_env example_inplane_cfg \<lparr>align = True, debug = False\<rparr> 1
     \<lparr>b_inplane = [], fraun_center = [], outpath = None\<rparr>
   = run_datasets example_inplane_env example_inplane_cfg \<lparr>align = True, debug = False\<rparr> [1, 2]
       \<lparr>b_inplane = [], fraun_center = [], outpath = None\<rparr>"
    using at2 [THEN conjunct1] unfolding up .
  have b: "inplane_main example_inplane_env ((''DATAPATH7'', ''c.hdf5'') # example_inplane_cfg)
       \<lparr>align = True, debug = False\<rparr>
     = inplane_main example_inplane_env example_inplane_cfg \<lparr>align = True, debug = False\<rparr>"
    using at2 [THEN conjunct2, THEN conjunct1] agree by blast
  have c: "resolve_channel example_inplane_cfg ''CH_MEAS'' 2 = Inr ''DMM - SingleValue''"
    using at2 [THEN conjunct2, THEN conjunct2, THEN conjunct1] meas meas2 by simp
  have d: "resolve_channel example_inplane_cfg ''CH_BIAS'' 2 = Inr ''Source - Current''"
    using at2 [THEN conjunct2, THEN conjunct2, THEN conjunct1] bias bias2 by simp
  have e: "resolve_threshold (parse_float example_inplane_env) example_inplane_cfg 2
      = Inr (Some 5)"
    using at2 [THEN conjunct2, THEN conjunct2, THEN conjunct2] thr thr2 p5 by simp
  have f: "resolve_threshold (parse_float example_inplane_env) example_inplane_cfg 1
      = Inr (Some 2)"
    using at1 [THEN conjunct2, THEN conjunct2, THEN conjunct2] thr thr1 by simp
  have pass: "dataset_body example_override_env example_inplane_cfg \<lparr>align = True, debug = False\<rparr> 2
        \<lparr>b_inplane = [], fraun_center = [], outpath = None\<rparr> =
      ([Mkdir ''output'',
        Plot2d [[500, 500, 500], [1500, 1500, 1500]] [[0, 1000000, 2000000], [0, 1000000, 2000000]]
          [[2, 3, 4], [0, 2, 4]] Delta_V_over_Delta_I 1000 ''vector9/b.hdf5'' None None,
        Ax_plot [500, 1500] [5000000, 10000000],
        Axvline 500,
        Savefig ''output/b_inplane=1.0_fraun-center.png''],
       Inr \<lparr>b_inplane = [1], fraun_center = [1 / 2],
            outpath = Some ''output/b_inplane=1.0''\<rparr>)"
    by (simp add: inplane_eval example_override_env_def)
  have res: "resolve_channel example_inplane_cfg ''CH_BIAS'' 2 = Inr ''Source - Current''"
      "resolve_channel example_inplane_cfg ''CH_MEAS'' 2 = Inr ''DMM - SingleValue''"
      "resolve_threshold (parse_float example_override_env) example_inplane_cfg 2 = Inr (Some 5)"
      "map_of example_inplane_cfg (''DATAPATH'' @ str_nat 2) = Some ''b.hdf5''"
      "map_of example_inplane_cfg ''CH_FIELD_PERP'' = Some ''Magnet - Field Z''"
    by (simp_all add: inplane_eval example_override_env_def)
  note used = dataset_enumeration [OF n run stop, where i = 2
      and env = example_override_env and args = "\<lparr>align = True, debug = False\<rparr>"
      and st = "\<lparr>b_inplane = [], fraun_center = [], outpath = None\<rparr>",
      THEN conjunct2, THEN conjunct2, THEN conjunct2, THEN conjunct2, rule_format, OF pass]
  then obtain ch_bias ch_meas datapath ch_field_perp b_perp ibias meas dvdi label ibias'
      threshold ic_p center
    where v: "resolve_channel example_inplane_cfg ''CH_BIAS'' 2 = Inr ch_bias"
      "resolve_channel example_inplane_cfg ''CH_MEAS'' 2 = Inr ch_meas"
      "map_of example_inplane_cfg (''DATAPATH'' @ str_nat 2) = Some datapath"
      "map_of example_inplane_cfg ''CH_FIELD_PERP'' = Some ch_field_perp"
      "get_data example_override_env datapath ch_field_perp ch_bias ch_meas
         = Inr (b_perp, ibias, meas)"
      "compute_dvdi example_override_env example_inplane_cfg datapath ch_meas meas ibias
         = Inr (dvdi, label, ibias')"
      "resolve_threshold (parse_float example_override_env) example_inplane_cfg 2 = Inr threshold"
      "extract_switching_current example_override_env ibias' dvdi threshold = Inr ic_p"
      "fraun_center \<lparr>b_inplane = [1], fraun_center = [1 / 2],
            outpath = Some ''output/b_inplane=1.0''\<rparr> = [] @ [center]"
      "Ax_plot (map (\<lambda>x. x / 0.001) (unique b_perp)) (map (\<lambda>x. x / 0.000001) ic_p)
         \<in> set [Mkdir ''output'',
        Plot2d [[500, 500, 500], [1500, 1500, 1500]] [[0, 1000000, 2000000], [0, 1000000, 2000000]]
          [[2, 3, 4], [0, 2, 4]] Delta_V_over_Delta_I 1000 ''vector9/b.hdf5'' None None,
        Ax_plot [500, 1500] [5000000, 10000000],
        Axvline 500,
        Savefig ''output/b_inplane=1.0_fraun-center.png'']"
    by (auto simp del: set_simps)
  from v(1,2,3,4,7) res have eq: "ch_bias = ''Source - Current''" "ch_meas = ''DMM - SingleValue''"
      "datapath = ''b.hdf5''" "ch_field_perp = ''Magnet - Field Z''" "threshold = Some 5"
    by simp_all
  from v(8) have ic: "ic_p = [5, 10]"
    unfolding eq by (simp add: example_override_env_def)
  have scale: "map (\<lambda>x::real. x / 0.000001) [5, 10] = [5000000, 10000000]" by simp
  note read = v(5) [unfolded eq]
  note dvdi = v(6) [unfolded eq]
  note extracted = v(8) [unfolded eq ic]
  note curve = v(10) [unfolded ic scale]
  have centre: "fraun_center \<lparr>b_inplane = [1], fraun_center = [1 / 2],
            outpath = Some ''output/b_inplane=1.0''\<rparr> = [center]"
    using v(9) by simp
  have g: "\<exists>b_perp ibias meas dvdi label ibias' center evs st'.
      dataset_body example_override_env example_inplane_cfg \<lparr>align = True, debug = False\<rparr> 2
        \<lparr>b_inplane = [], fraun_center = [], outpath = None\<rparr> = (evs, Inr st') \<and>
      get_data example_override_env ''b.hdf5'' ''Magnet - Field Z'' ''Source - Current''
        ''DMM - SingleValue'' = Inr (b_perp, ibias, meas) \<and>
      compute_dvdi example_override_env example_inplane_cfg ''b.hdf5'' ''DMM - SingleValue''
        meas ibias = Inr (dvdi, label, ibias') \<and>
      extract_switching_current example_override_env ibias' dvdi (Some 5) = Inr [5, 10] \<and>
      Ax_plot (map (\<lambda>x. x / 0.001) (unique b_perp)) [5000000, 10000000] \<in> set evs \<and>
      fraun_center st' = [center]"
    apply (intro exI conjI)
         apply (rule pass)
        apply (rule read)
       apply (rule dvdi)
      apply (rule extracted)
     apply (rule curve)
    apply (rule centre)
    done
  from a b c d e f g show ?thesis by (intro conjI)
qed

subsection \<open>The field-alignment figure\<close>

lemma seq_assoc: "seq (seq m f) g = seq m (\<lambda>x. seq (f x) g)"
  by (cases m; cases "snd m") (auto simp: seq_def split: prod.splits sum.splits)

lemma run_datasets_append:
  "run_datasets env cfg args (is @ js) st =
     seq (run_datasets env cfg args is st) (\<lambda>st'. run_datasets env cfg args js st')"
proof (induction "is" arbitrary: st)
  case Nil
  show ?case by simp
next
  case (Cons i "is")
  have "run_datasets env cfg args (is @ js) =
      (\<lambda>st'. seq (run_datasets env cfg args is st') (\<lambda>st''. run_datasets env cfg args js st''))"
    by (rule ext) (rule Cons.IH)
  then show ?case by (simp add: seq_assoc)
qed

text \<open>What a pass of the loop body that raises nothing leaves in the variables.\<close>

lemma body_success:
  assumes "snd (dataset_body env cfg args i st) = Inr st'"
  shows "\<exists>datapath channel inplane center.
           map_of cfg (''DATAPATH'' @ str_nat i) = Some datapath \<and>
           map_of cfg ''CH_FIELD_INPLANE'' = Some channel \<and>
           instrument_config env datapath channel (last (split_acc '' - '' channel [])) = Inr inplane \<and>
           st' = st\<lparr>b_inplane := b_inplane st @ [inplane],
                     fraun_center := fraun_center st @ [center],
                     outpath := Some (''output/'' @ path_stem env datapath @ ''_inplane=''
                                      @ repr_float env inplane)\<rparr>"
  using assms unfolding dataset_body_def
  by (auto simp: snd_seq_Inr cfg_item_def split_def split: option.splits prod.splits)


lemma run_datasets_last:
  assumes "run_datasets env cfg args (is @ [i]) st = (evs, Inr st')"
  shows "\<exists>datapath channel inplane.
           map_of cfg (''DATAPATH'' @ str_nat i) = Some datapath \<and>
           map_of cfg ''CH_FIELD_INPLANE'' = Some channel \<and>
           instrument_config env datapath channel (last (split_acc '' - '' channel [])) = Inr inplane \<and>
           b_inplane st' \<noteq> [] \<and> last (b_inplane st') = inplane \<and>
           outpath st' = Some (''output/'' @ path_stem env datapath @ ''_inplane=''
                               @ repr_float env inplane)"
proof -
  from assms have "snd (run_datasets env cfg args (is @ [i]) st) = Inr st'" by simp
  then obtain st1 where "snd (dataset_body env cfg args i st1) = Inr st'"
    by (auto simp: run_datasets_append snd_seq_Inr)
  from body_success [OF this] show ?thesis by auto
qed

text \<open>
  C10. With \<open>--align\<close>: if the datasets 1 to \<open>n - 1\<close> are enumerated (\<open>n \<ge> 2\<close>), the loop
  raises nothing and \<open>np.polyfit\<close> returns, the script ends normally and the last file
  it saves is the field-alignment figure, named by the output prefix of the last
  dataset: \<open>output/\<close>, the stem of \<open>DATAPATH{n-1}\<close>, \<open>_inplane=\<close>, that dataset's in-plane
  field, \<open>_field-alignment.png\<close>. If \<open>DATAPATH1\<close> is absent (or empty), the script ends with
  an exception (raised by \<open>np.polyfit\<close> on the empty arrays, or else the NameError of
  the unbound name \<open>outpath\<close>) and saves no figure at all.
\<close>

theorem field_alignment_artifact:
  "(align args \<and> 2 \<le> n \<and>
      (\<forall>j\<in>{1..<n}. \<exists>v. map_of cfg (''DATAPATH'' @ str_nat j) = Some v \<and> v \<noteq> []) \<and>
      (map_of cfg (''DATAPATH'' @ str_nat n) = None \<or>
       map_of cfg (''DATAPATH'' @ str_nat n) = Some []) \<and>
      datasets_loop env cfg args 1 \<lparr>b_inplane = [], fraun_center = [], outpath = None\<rparr>
        = (evs, Inr st) \<and>
      polyfit env (b_inplane st) (fraun_center st) = Inr (m, b)
    \<longrightarrow> (\<exists>datapath channel inplane.
          map_of cfg (''DATAPATH'' @ str_nat (n - 1)) = Some datapath \<and>
          map_of cfg ''CH_FIELD_INPLANE'' = Some channel \<and>
          instrument_config env datapath channel (last (split_acc '' - '' channel []))
            = Inr inplane \<and>
          inplane_main env cfg args =
            (evs @
             [Plot (map (\<lambda>x. x / 0.001) (b_inplane st))
                   (map (\<lambda>y. y / 0.000001) (fraun_center st)),
              Ax_plot_mdeg (map (\<lambda>x. x / 0.001) (b_inplane st))
                   (map (\<lambda>x. (m * x + b) / 0.000001) (b_inplane st)) (misalignment_mdeg m),
              Savefig (''output/'' @ path_stem env datapath @ ''_inplane=''
                       @ repr_float env inplane @ ''_field-alignment.png''),
              Show],
             Inr ()))) \<and>
   (align args \<and> (map_of cfg ''DATAPATH1'' = None \<or> map_of cfg ''DATAPATH1'' = Some [])
    \<longrightarrow> (\<exists>e evs'. inplane_main env cfg args = (evs', Inl e) \<and>
                  (\<forall>name. Savefig name \<notin> set evs')))"
proof (intro conjI impI)
  assume a: "align args \<and> 2 \<le> n \<and>
      (\<forall>j\<in>{1..<n}. \<exists>v. map_of cfg (''DATAPATH'' @ str_nat j) = Some v \<and> v \<noteq> []) \<and>
      (map_of cfg (''DATAPATH'' @ str_nat n) = None \<or>
       map_of cfg (''DATAPATH'' @ str_nat n) = Some []) \<and>
      datasets_loop env cfg args 1 \<lparr>b_inplane = [], fraun_center = [], outpath = None\<rparr>
        = (evs, Inr st) \<and>
      polyfit env (b_inplane st) (fraun_center st) = Inr (m, b)"
  let ?st0 = "\<lparr>b_inplane = [], fraun_center = [], outpath = None\<rparr>"
  from a have n: "1 \<le> n" "2 \<le> n" by simp_all
  from n(2) obtain k where k: "n = Suc k" "1 \<le> k" by (cases n) auto
  have range: "[1..<n] = [1..<n - 1] @ [n - 1]"
    using k by simp
  from a have al: "align args" and fit: "polyfit env (b_inplane st) (fraun_center st) = Inr (m, b)"
    by simp_all
  from a have loop: "datasets_loop env cfg args 1 ?st0 = (evs, Inr st)" by simp
  from a have run: "\<forall>j\<in>{1..<n}. \<exists>v. map_of cfg (''DATAPATH'' @ str_nat j) = Some v \<and> v \<noteq> []"
    and stop: "map_of cfg (''DATAPATH'' @ str_nat n) = None \<or>
       map_of cfg (''DATAPATH'' @ str_nat n) = Some []"
    by blast+
  have run_all: "\<forall>j. 1 \<le> j \<and> j < n \<longrightarrow> truthy (cfg_get cfg (''DATAPATH'' @ str_nat j))"
    using run unfolding truthy_iff by auto
  have stop': "\<not> truthy (cfg_get cfg (''DATAPATH'' @ str_nat n))"
    using stop unfolding truthy_iff by auto
  have "datasets_loop env cfg args 1 ?st0 = run_datasets env cfg args [1..<n] ?st0"
    using run_all stop' n(1) by (rule loop_unroll)
  with loop range have "run_datasets env cfg args ([1..<n - 1] @ [n - 1]) ?st0 = (evs, Inr st)"
    by simp
  from run_datasets_last [OF this] obtain datapath channel inplane where
    last: "map_of cfg (''DATAPATH'' @ str_nat (n - 1)) = Some datapath"
      "map_of cfg ''CH_FIELD_INPLANE'' = Some channel"
      "instrument_config env datapath channel (last (split_acc '' - '' channel [])) = Inr inplane"
      "outpath st = Some (''output/'' @ path_stem env datapath @ ''_inplane=''
                          @ repr_float env inplane)"
    by blast
  have "inplane_main env cfg args =
      (evs @
       [Plot (map (\<lambda>x. x / 0.001) (b_inplane st))
             (map (\<lambda>y. y / 0.000001) (fraun_center st)),
        Ax_plot_mdeg (map (\<lambda>x. x / 0.001) (b_inplane st))
             (map (\<lambda>x. (m * x + b) / 0.000001) (b_inplane st)) (misalignment_mdeg m),
        Savefig (''output/'' @ path_stem env datapath @ ''_inplane=''
                 @ repr_float env inplane @ ''_field-alignment.png''),
        Show],
       Inr ())"
    using al fit last(4)
    by (simp add: inplane_main_def loop [unfolded One_nat_def] field_alignment_def)
  with last(1-3) show "\<exists>datapath channel inplane.
          map_of cfg (''DATAPATH'' @ str_nat (n - 1)) = Some datapath \<and>
          map_of cfg ''CH_FIELD_INPLANE'' = Some channel \<and>
          instrument_config env datapath channel (last (split_acc '' - '' channel []))
            = Inr inplane \<and>
          inplane_main env cfg args =
            (evs @
             [Plot (map (\<lambda>x. x / 0.001) (b_inplane st))
                   (map (\<lambda>y. y / 0.000001) (fraun_center st)),
              Ax_plot_mdeg (map (\<lambda>x. x / 0.001) (b_inplane st))
                   (map (\<lambda>x. (m * x + b) / 0.000001) (b_inplane st)) (misalignment_mdeg m),
              Savefig (''output/'' @ path_stem env datapath @ ''_inplane=''
                       @ repr_float env inplane @ ''_field-alignment.png''),
              Show],
             Inr ())"
    by blast
next
  assume a: "align args \<and> (map_of cfg ''DATAPATH1'' = None \<or> map_of cfg ''DATAPATH1'' = Some [])"
  let ?st0 = "\<lparr>b_inplane = [], fraun_center = [], outpath = None\<rparr>"
  have s: "str_nat 1 = ''1''" "str_nat (Suc 0) = ''1''"
    by (simp_all add: str_nat.simps digit_char_def)
  from a have "\<not> truthy (cfg_get cfg (''DATAPATH'' @ str_nat 1))"
    by (auto simp: s cfg_get_def)
  then have loop: "datasets_loop env cfg args 1 ?st0 = ok ?st0"
    by (rule loop_stop)
  show "\<exists>e evs'. inplane_main env cfg args = (evs', Inl e) \<and>
      (\<forall>name. Savefig name \<notin> set evs')"
  proof (cases "polyfit env [] []")
    case (Inl e)
    with a show ?thesis
      by (simp add: inplane_main_def loop [unfolded One_nat_def] field_alignment_def)
  next
    case (Inr mb)
    with a show ?thesis
      by (cases mb) (simp add: inplane_main_def loop [unfolded One_nat_def] field_alignment_def)
  qed
qed

theorem field_alignment_artifact_witness:
  "inplane_main example_inplane_env example_inplane_cfg \<lparr>align = True, debug = False\<rparr> =
     ([Mkdir ''output'',
       Plot2d [[0, 0, 0], [1000, 1000, 1000]] [[0, 1000000, 2000000], [0, 1000000, 2000000]]
         [[1, 3 / 2, 2], [0, 1, 2]] Delta_V_over_Delta_I 0 ''vector9/a.hdf5'' None None,
       Ax_plot [0, 1000] [1000000, 2000000],
       Axvline 0,
       Savefig ''output/a_inplane=0.0_fraun-center.png'',
       Mkdir ''output'',
       Plot2d [[500, 500, 500], [1500, 1500, 1500]]
         [[0, 1000000, 2000000], [0, 1000000, 2000000]]
         [[1, 3 / 2, 2], [0, 1, 2]] Delta_V_over_Delta_I 1000 ''vector9/b.hdf5'' None None,
       Ax_plot [500, 1500] [1000000, 2000000],
       Axvline 500,
       Savefig ''output/b_inplane=1.0_fraun-center.png'',
       Plot [0, 1000] [0, 500000],
       Ax_plot_mdeg [0, 1000] [0, 500000] (misalignment_mdeg (1 / 2)),
       Savefig ''output/b_inplane=1.0_field-alignment.png'',
       Show],
      Inr ()) \<and>
   (\<exists>e evs'. inplane_main example_inplane_env [] \<lparr>align = True, debug = False\<rparr> = (evs', Inl e) \<and>
      (\<forall>name. Savefig name \<notin> set evs'))"
proof -
  let ?args = "\<lparr>align = True, debug = False\<rparr>"
  let ?evs = "[Mkdir ''output'',
       Plot2d [[0, 0, 0], [1000, 1000, 1000]] [[0, 1000000, 2000000], [0, 1000000, 2000000]]
         [[1, 3 / 2, 2], [0, 1, 2]] Delta_V_over_Delta_I 0 ''vector9/a.hdf5'' None None,
       Ax_plot [0, 1000] [1000000, 2000000],
       Axvline 0,
       Savefig ''output/a_inplane=0.0_fraun-center.png'',
       Mkdir ''output'',
       Plot2d [[500, 500, 500], [1500, 1500, 1500]]
         [[0, 1000000, 2000000], [0, 1000000, 2000000]]
         [[1, 3 / 2, 2], [0, 1, 2]] Delta_V_over_Delta_I 1000 ''vector9/b.hdf5'' None None,
       Ax_plot [500, 1500] [1000000, 2000000],
       Axvline 500,
       Savefig ''output/b_inplane=1.0_fraun-center.png'']"
  let ?st = "\<lparr>b_inplane = [0, 1], fraun_center = [0, 1 / 2],
              outpath = Some ''output/b_inplane=1.0''\<rparr>"
  have s: "str_nat 1 = ''1''" "str_nat 2 = ''2''" "str_nat 3 = ''3''" "str_nat (Suc 0) = ''1''"
    by (simp_all add: str_nat.simps digit_char_def)
  have range: "{1..<3::nat} = {1, 2}" by auto
  have run: "\<forall>j\<in>{1..<3}. \<exists>v. map_of example_inplane_cfg (''DATAPATH'' @ str_nat j) = Some v
      \<and> v \<noteq> []"
    unfolding range by (simp add: s example_inplane_cfg_def)
  have stop: "map_of example_inplane_cfg (''DATAPATH'' @ str_nat 3) = None \<or>
      map_of example_inplane_cfg (''DATAPATH'' @ str_nat 3) = Some []"
    by (simp add: s example_inplane_cfg_def)
  have loop: "datasets_loop example_inplane_env example_inplane_cfg ?args 1
      \<lparr>b_inplane = [], fraun_center = [], outpath = None\<rparr> = (?evs, Inr ?st)"
    by (simp add: inplane_eval)
  have fit: "polyfit example_inplane_env (b_inplane ?st) (fraun_center ?st) = Inr (1 / 2, 0)"
    by (simp add: example_inplane_env_def least_squares_line_def)
  have hyp: "align ?args \<and> (2::nat) \<le> 3 \<and>
      (\<forall>j\<in>{1..<3}. \<exists>v. map_of example_inplane_cfg (''DATAPATH'' @ str_nat j) = Some v
         \<and> v \<noteq> []) \<and>
      (map_of example_inplane_cfg (''DATAPATH'' @ str_nat 3) = None \<or>
       map_of example_inplane_cfg (''DATAPATH'' @ str_nat 3) = Some []) \<and>
      datasets_loop example_inplane_env example_inplane_cfg ?args 1
        \<lparr>b_inplane = [], fraun_center = [], outpath = None\<rparr> = (?evs, Inr ?st) \<and>
      polyfit example_inplane_env (b_inplane ?st) (fraun_center ?st) = Inr (1 / 2, 0)"
    using run stop loop fit by simp
  from field_alignment_artifact [THEN conjunct1, rule_format, OF hyp]
  obtain datapath channel inplane where
    d: "map_of example_inplane_cfg (''DATAPATH'' @ str_nat (3 - 1)) = Some datapath"
    and c: "map_of example_inplane_cfg ''CH_FIELD_INPLANE'' = Some channel"
    and i: "instrument_config example_inplane_env datapath channel
        (last (split_acc '' - '' channel [])) = Inr inplane"
    and main: "inplane_main example_inplane_env example_inplane_cfg ?args =
      (?evs @
       [Plot (map (\<lambda>x. x / 0.001) (b_inplane ?st)) (map (\<lambda>y. y / 0.000001) (fraun_center ?st)),
        Ax_plot_mdeg (map (\<lambda>x. x / 0.001) (b_inplane ?st))
          (map (\<lambda>x. (1 / 2 * x + 0) / 0.000001) (b_inplane ?st)) (misalignment_mdeg (1 / 2)),
        Savefig (''output/'' @ path_stem example_inplane_env datapath @ ''_inplane=''
                 @ repr_float example_inplane_env inplane @ ''_field-alignment.png''),
        Show],
       Inr ())"
    by blast
  from d have datapath: "datapath = ''b.hdf5''"
    by (simp add: s example_inplane_cfg_def)
  from c have channel: "channel = ''Magnet - Field X''"
    by (simp add: example_inplane_cfg_def)
  from i have inplane: "inplane = 1"
    unfolding datapath channel by (simp add: example_inplane_env_def)
  have first: "inplane_main example_inplane_env example_inplane_cfg ?args =
      (?evs @
       [Plot [0, 1000] [0, 500000],
        Ax_plot_mdeg [0, 1000] [0, 500000] (misalignment_mdeg (1 / 2)),
        Savefig ''output/b_inplane=1.0_field-alignment.png'',
        Show],
       Inr ())"
    unfolding main datapath inplane by (simp add: example_inplane_env_def)
  have "align ?args \<and> (map_of [] ''DATAPATH1'' = None \<or> map_of [] ''DATAPATH1'' = Some [])"
    by simp
  from field_alignment_artifact [THEN conjunct2, rule_format, OF this]
  have second: "\<exists>e evs'. inplane_main example_inplane_env [] ?args = (evs', Inl e) \<and>
      (\<forall>name. Savefig name \<notin> set evs')" .
  from first second show ?thesis by simp
qed

subsection \<open>The regression of the Fraunhofer centres\<close>

lemma sum_squared_differences:
  "(\<Sum>x\<leftarrow>xs. \<Sum>y\<leftarrow>xs. (x - y)\<^sup>2)
   = 2 * (real (length xs) * (\<Sum>x\<leftarrow>xs. x * x) - sum_list xs * sum_list xs)"
proof -
  have inner: "(\<Sum>y\<leftarrow>ys. (x - y)\<^sup>2)
      = real (length ys) * (x * x) - 2 * x * sum_list ys + (\<Sum>y\<leftarrow>ys. y * y)" for x :: real and ys
    by (induction ys) (simp_all add: algebra_simps power2_eq_square)
  have outer: "(\<Sum>x\<leftarrow>zs. a * (x * x) - 2 * x * s + q)
      = a * (\<Sum>x\<leftarrow>zs. x * x) - 2 * s * sum_list zs + real (length zs) * q"
    for a s q :: real and zs
    by (induction zs) (simp_all add: algebra_simps)
  have "(\<Sum>x\<leftarrow>xs. \<Sum>y\<leftarrow>xs. (x - y)\<^sup>2)
      = real (length xs) * (\<Sum>x\<leftarrow>xs. x * x) - 2 * sum_list xs * sum_list xs
        + real (length xs) * (\<Sum>y\<leftarrow>xs. y * y)"
    by (simp only: inner outer)
  then show ?thesis by (simp add: algebra_simps)
qed

lemma elem_le_sum_list_nonneg:
  "(\<forall>z\<in>set zs. (0::real) \<le> z) \<Longrightarrow> z \<in> set zs \<Longrightarrow> z \<le> sum_list zs"
proof (induction zs)
  case Nil
  then show ?case by simp
next
  case (Cons a zs)
  then have "0 \<le> sum_list zs" by (simp add: sum_list_nonneg)
  with Cons show ?case by auto
qed

text \<open>Two different abscissae make the determinant of the normal equations positive.\<close>

lemma determinant_positive:
  assumes "x \<in> set xs" "y \<in> set xs" "x \<noteq> (y::real)"
  shows "0 < real (length xs) * (\<Sum>x\<leftarrow>xs. x * x) - sum_list xs * sum_list xs"
proof -
  let ?row = "\<lambda>x. \<Sum>y\<leftarrow>xs. (x - y)\<^sup>2"
  have "0 < (x - y)\<^sup>2" using assms(3) by simp
  also have "\<dots> \<le> ?row x"
    using assms(2) by (intro elem_le_sum_list_nonneg) auto
  also have "\<dots> \<le> (\<Sum>x\<leftarrow>xs. ?row x)"
    using assms(1) by (intro elem_le_sum_list_nonneg) (auto intro!: sum_list_nonneg)
  finally show ?thesis
    unfolding sum_squared_differences by simp
qed

text \<open>Points on a line give back the line.\<close>

lemma least_squares_exact:
  assumes "x \<in> set xs" "y \<in> set xs" "x \<noteq> y"
  shows "least_squares_line xs (map (\<lambda>x. m * x + b) xs) = Some (m, b)"
proof -
  let ?n = "real (length xs)" and ?S = "sum_list xs" and ?Q = "\<Sum>x\<leftarrow>xs. x * x"
  have sy: "sum_list (map (\<lambda>x. m * x + b) xs) = m * ?S + ?n * b"
    by (induction xs) (simp_all add: algebra_simps)
  have sxy: "sum_list (map2 (\<lambda>x y. x * y) xs (map (\<lambda>x. m * x + b) xs)) = m * ?Q + b * ?S"
    by (induction xs) (simp_all add: algebra_simps)
  have d: "?n * ?Q - ?S * ?S \<noteq> 0"
    using determinant_positive [OF assms] by simp
  have slope: "(?n * (m * ?Q + b * ?S) - ?S * (m * ?S + ?n * b)) / (?n * ?Q - ?S * ?S) = m"
    using d by (simp add: field_simps)
  have intercept: "((m * ?S + ?n * b) * ?Q - ?S * (m * ?Q + b * ?S)) / (?n * ?Q - ?S * ?S) = b"
    using d by (simp add: field_simps)
  show ?thesis
    unfolding least_squares_line_def Let_def sy sxy
    using d slope intercept by simp
qed

lemma rint_close: "\<bar>of_int (rint x) - x\<bar> \<le> 1 / 2"
proof -
  have "of_int \<lfloor>x\<rfloor> \<le> x" "x < of_int \<lfloor>x\<rfloor> + 1" by linarith+
  then show ?thesis
    by (auto simp: rint_def Let_def)
qed

lemma np_round_close: "\<bar>np_round x 2 - x\<bar> \<le> 1 / 200"
proof -
  have "\<bar>of_int (rint (x * 100)) - x * 100\<bar> \<le> 1 / 2" by (rule rint_close)
  then show ?thesis by (simp add: np_round_def field_simps abs_if split: if_splits)
qed

lemma arcsin_half: "arcsin (1 / 2) = pi / 6"
proof -
  have "arcsin (sin (pi / 6)) = pi / 6"
    by (rule arcsin_sin) (use pi_gt_zero in \<open>simp_all add: field_simps\<close>)
  then show ?thesis by (simp add: sin_30)
qed

lemma arcsin_sin_seventh: "arcsin (sin (pi / 7)) = pi / 7"
  by (rule arcsin_sin) (use pi_gt_zero in \<open>simp_all add: field_simps\<close>)

text \<open>
  C8, as stated, fails in its last part. The number in the legend is not \<open>arcsin(m)\<close> in
  degrees: it is that angle in millidegrees, rounded to two decimals. For the exact
  data \<open>center = b_inplane / 2\<close> the slope is 1/2, \<open>arcsin(m)\<close> is 30 degrees and the legend
  shows 30000; for the slope \<open>sin(pi/7)\<close> the angle is 180/7 degrees and the legend shows
  25714.29, which is not 180/7 in any unit.
\<close>

theorem alignment_angle_counterexample:
  "field_alignment example_inplane_env
     \<lparr>b_inplane = [0, 1], fraun_center = map (\<lambda>x. 1 / 2 * x + 0) [0, 1],
      outpath = Some ''output/b''\<rparr>
   = ([Plot [0, 1000] [0, 500000],
       Ax_plot_mdeg [0, 1000] [0, 500000] (Some 30000),
       Savefig ''output/b_field-alignment.png''],
      Inr ()) \<and>
   degrees (arcsin (1 / 2)) = 30 \<and>
   misalignment_mdeg (sin (pi / 7)) = Some (2571429 / 100) \<and>
   degrees (arcsin (sin (pi / 7))) = 180 / 7 \<and>
   (2571429 / 100 :: real) \<noteq> 180 / 7 \<and> (2571429 / 100 / 1000 :: real) \<noteq> 180 / 7"
proof -
  have deg: "degrees (arcsin (1 / 2)) = 30"
    by (simp add: degrees_def arcsin_half)
  have deg': "degrees (pi / 6) = 30"
    by (simp add: degrees_def)
  have mdeg: "misalignment_mdeg (1 / 2) = Some 30000"
    by (simp add: misalignment_mdeg_def arcsin_half deg' np_round_def rint_def Let_def)
  have deg7: "degrees (arcsin (sin (pi / 7))) = 180 / 7"
    by (simp add: degrees_def arcsin_sin_seventh)
  have fl: "\<lfloor>18000000 / 7 :: real\<rfloor> = 2571428"
    by linarith
  have mdeg7: "misalignment_mdeg (sin (pi / 7)) = Some (2571429 / 100)"
    using sin_ge_minus_one [of "pi / 7"] sin_le_one [of "pi / 7"]
    by (simp add: misalignment_mdeg_def deg7 np_round_def rint_def Let_def fl)
  have run: "field_alignment example_inplane_env
     \<lparr>b_inplane = [0, 1], fraun_center = map (\<lambda>x. 1 / 2 * x + 0) [0, 1],
      outpath = Some ''output/b''\<rparr>
   = ([Plot [0, 1000] [0, 500000],
       Ax_plot_mdeg [0, 1000] [0, 500000] (Some 30000),
       Savefig ''output/b_field-alignment.png''],
      Inr ())"
    by (simp add: field_alignment_def example_inplane_env_def least_squares_line_def mdeg)
  from run deg mdeg7 deg7 show ?thesis by simp
qed

text \<open>
  C8 (amended). Given (in-plane field, Fraunhofer centre) pairs generated from an
  exact linear relation \<open>center = m * b_inplane + b\<close> with no noise and at least two
  different in-plane fields, the \<open>--align\<close> branch, whose \<open>np.polyfit\<close> is a least-squares
  fit, recovers \<open>m\<close> and \<open>b\<close>, draws the line \<open>m * b_inplane + b\<close> and saves the figure. The
  number in the legend is \<open>arcsin(m)\<close> converted to degrees, divided by 1e-3
  (millidegrees) and rounded to two decimals; as an angle it is within 0.000005
  degrees of \<open>arcsin(m)\<close>.
\<close>

theorem alignment_regression:
  assumes "fits_least_squares env"
    and "x1 \<in> set xs" and "x2 \<in> set xs" and "x1 \<noteq> x2"
    and "b_inplane st = xs" and "fraun_center st = map (\<lambda>x. m * x + b) xs"
    and "outpath st = Some p"
  shows "polyfit env (b_inplane st) (fraun_center st) = Inr (m, b) \<and>
         field_alignment env st =
           ([Plot (map (\<lambda>x. x / 0.001) xs) (map (\<lambda>x. (m * x + b) / 0.000001) xs),
             Ax_plot_mdeg (map (\<lambda>x. x / 0.001) xs) (map (\<lambda>x. (m * x + b) / 0.000001) xs)
               (misalignment_mdeg m),
             Savefig (p @ ''_field-alignment.png'')],
            Inr ()) \<and>
         (- 1 \<le> m \<and> m \<le> 1 \<longrightarrow>
            misalignment_mdeg m = Some (np_round (degrees (arcsin m) / 0.001) 2) \<and>
            \<bar>np_round (degrees (arcsin m) / 0.001) 2 / 1000 - degrees (arcsin m)\<bar>
              \<le> 1 / 200000)"
proof -
  from least_squares_exact [OF assms(2-4)]
  have "least_squares_line xs (map (\<lambda>x. m * x + b) xs) = Some (m, b)" .
  with assms(1) have fit: "polyfit env xs (map (\<lambda>x. m * x + b) xs) = Inr (m, b)"
    unfolding fits_least_squares_def by blast
  have run: "field_alignment env st =
           ([Plot (map (\<lambda>x. x / 0.001) xs) (map (\<lambda>x. (m * x + b) / 0.000001) xs),
             Ax_plot_mdeg (map (\<lambda>x. x / 0.001) xs) (map (\<lambda>x. (m * x + b) / 0.000001) xs)
               (misalignment_mdeg m),
             Savefig (p @ ''_field-alignment.png'')],
            Inr ())"
    unfolding field_alignment_def assms(5-7) fit by (simp add: comp_def)
  have "\<bar>np_round (degrees (arcsin m) / 0.001) 2 - degrees (arcsin m) / 0.001\<bar> \<le> 1 / 200"
    by (rule np_round_close)
  then have close: "\<bar>np_round (degrees (arcsin m) / 0.001) 2 / 1000 - degrees (arcsin m)\<bar>
      \<le> 1 / 200000"
    by (simp add: field_simps abs_if split: if_splits)
  from fit run close show ?thesis
    by (simp add: assms(5,6) misalignment_mdeg_def)
qed

theorem alignment_regression_witness:
  "fits_least_squares example_inplane_env \<and>
   polyfit example_inplane_env [0, 1] (map (\<lambda>x. 1 / 2 * x + 0) [0, 1]) = Inr (1 / 2, 0) \<and>
   field_alignment example_inplane_env
     \<lparr>b_inplane = [0, 1], fraun_center = map (\<lambda>x. 1 / 2 * x + 0) [0, 1],
      outpath = Some ''output/b_inplane=1.0''\<rparr>
   = ([Plot [0, 1000] [0, 500000],
       Ax_plot_mdeg [0, 1000] [0, 500000] (misalignment_mdeg (1 / 2)),
       Savefig ''output/b_inplane=1.0_field-alignment.png''],
      Inr ()) \<and>
   misalignment_mdeg (1 / 2) = Some (np_round (degrees (arcsin (1 / 2)) / 0.001) 2) \<and>
   \<bar>np_round (degrees (arcsin (1 / 2)) / 0.001) 2 / 1000 - degrees (arcsin (1 / 2))\<bar>
     \<le> 1 / 200000"
proof -
  let ?st = "\<lparr>b_inplane = [0, 1], fraun_center = map (\<lambda>x. 1 / 2 * x + 0) [0, 1],
      outpath = Some ''output/b_inplane=1.0''\<rparr>"
  have lsq: "fits_least_squares example_inplane_env"
    by (simp add: fits_least_squares_def example_inplane_env_def)
  have mem: "(0::real) \<in> set [0, 1]" "(1::real) \<in> set [0, 1]" "(0::real) \<noteq> 1"
    by simp_all
  have st: "b_inplane ?st = [0, 1]" "fraun_center ?st = map (\<lambda>x. 1 / 2 * x + 0) [0, 1]"
    "outpath ?st = Some ''output/b_inplane=1.0''"
    by simp_all
  have range: "- 1 \<le> (1 / 2 :: real) \<and> (1 / 2 :: real) \<le> 1" by simp
  note w = alignment_regression [OF lsq mem st]
  have a: "polyfit example_inplane_env [0, 1] (map (\<lambda>x. 1 / 2 * x + 0) [0, 1]) = Inr (1 / 2, 0)"
    using w [THEN conjunct1] by simp
  have b: "field_alignment example_inplane_env ?st
   = ([Plot [0, 1000] [0, 500000],
       Ax_plot_mdeg [0, 1000] [0, 500000] (misalignment_mdeg (1 / 2)),
       Savefig ''output/b_inplane=1.0_field-alignment.png''],
      Inr ())"
    using w [THEN conjunct2, THEN conjunct1] by simp
  have c: "misalignment_mdeg (1 / 2) = Some (np_round (degrees (arcsin (1 / 2)) / 0.001) 2) \<and>
   \<bar>np_round (degrees (arcsin (1 / 2)) / 0.001) 2 / 1000 - degrees (arcsin (1 / 2))\<bar>
     \<le> 1 / 200000"
    using w [THEN conjunct2, THEN conjunct2] range by blast
  from lsq a b c show ?thesis by blast
qed

subsection \<open>The differential resistance\<close>

text \<open>
  C4. The computation of dV/dI branches on the name of the measurement channel.
  \<^item> If it ends with "VI curve" or "SingleValue": dV/dI is the gradient of \<open>meas\<close> along
    the last axis, divided by the gradient of \<open>ibias\<close> along the last axis, divided by
    DC_AMP_GAIN; the bias array is unchanged.
  \<^item> Otherwise dV/dI is \<open>|meas|\<close>; if the name ends with "Value", dV/dI is further
    divided by (Output amplitude / R_AC_OUT) and the bias array is divided by
    R_DC_OUT; if not, both stay as they are.
  The divisors are taken non-zero and the two gradients of one shape, as numpy needs
  for finite results.
\<close>

theorem dvdi_branches:
  "((endswith ch_meas ''VI curve'' \<or> endswith ch_meas ''SingleValue'') \<and>
      gradient meas = Inr grad_meas \<and> gradient ibias = Inr grad_ibias \<and>
      map length grad_meas = map length grad_ibias \<and> 0 \<notin> set (concat grad_ibias) \<and>
      cfg_getfloat (parse_float env) cfg ''DC_AMP_GAIN'' None = Inr (Some gain) \<and> gain \<noteq> 0
    \<longrightarrow> compute_dvdi env cfg path ch_meas meas ibias =
         Inr (map (map (\<lambda>q. q / of_real gain))
                (map2 (map2 (\<lambda>v i. v / of_real i)) grad_meas grad_ibias),
              Delta_V_over_Delta_I, ibias)) \<and>
   (\<not> (endswith ch_meas ''VI curve'' \<or> endswith ch_meas ''SingleValue'') \<and>
      endswith ch_meas ''Value'' \<and>
      instrument_config env path ch_meas ''Output amplitude'' = Inr amplitude \<and>
      cfg_getfloat (parse_float env) cfg ''R_AC_OUT'' None = Inr (Some r_ac_out) \<and>
      cfg_getfloat (parse_float env) cfg ''R_DC_OUT'' None = Inr (Some r_dc_out) \<and>
      amplitude \<noteq> 0 \<and> r_ac_out \<noteq> 0 \<and> r_dc_out \<noteq> 0
    \<longrightarrow> compute_dvdi env cfg path ch_meas meas ibias =
         Inr (map (map (\<lambda>z. of_real (cmod z) / of_real (amplitude / r_ac_out))) meas,
              Abs_dV_dI, map (map (\<lambda>x. x / r_dc_out)) ibias)) \<and>
   (\<not> (endswith ch_meas ''VI curve'' \<or> endswith ch_meas ''SingleValue'') \<and>
      \<not> endswith ch_meas ''Value''
    \<longrightarrow> compute_dvdi env cfg path ch_meas meas ibias =
         Inr (map (map (\<lambda>z. of_real (cmod z))) meas, Abs_dV_dI, ibias))"
proof (intro conjI impI)
  assume a: "(endswith ch_meas ''VI curve'' \<or> endswith ch_meas ''SingleValue'') \<and>
      gradient meas = Inr grad_meas \<and> gradient ibias = Inr grad_ibias \<and>
      map length grad_meas = map length grad_ibias \<and> 0 \<notin> set (concat grad_ibias) \<and>
      cfg_getfloat (parse_float env) cfg ''DC_AMP_GAIN'' None = Inr (Some gain) \<and> gain \<noteq> 0"
  have shape: "map length (map (map complex_of_real) grad_ibias) = map length grad_ibias"
    by (simp add: comp_def)
  have nonzero: "0 \<notin> set (concat (map (map complex_of_real) grad_ibias))"
    using a by auto
  have zip: "map2 (map2 (\<lambda>x y. x / y)) grad_meas (map (map complex_of_real) grad_ibias)
      = map2 (map2 (\<lambda>v i. v / complex_of_real i)) grad_meas grad_ibias"
    by (simp add: zip_map2 map_zip_map2 case_prod_unfold comp_def)
  from a shape nonzero zip
  show "compute_dvdi env cfg path ch_meas meas ibias =
         Inr (map (map (\<lambda>q. q / of_real gain))
                (map2 (map2 (\<lambda>v i. v / of_real i)) grad_meas grad_ibias),
              Delta_V_over_Delta_I, ibias)"
    by (simp add: compute_dvdi_def divide_arrays_def divide_scalar_def)
next
  assume "\<not> (endswith ch_meas ''VI curve'' \<or> endswith ch_meas ''SingleValue'') \<and>
      endswith ch_meas ''Value'' \<and>
      instrument_config env path ch_meas ''Output amplitude'' = Inr amplitude \<and>
      cfg_getfloat (parse_float env) cfg ''R_AC_OUT'' None = Inr (Some r_ac_out) \<and>
      cfg_getfloat (parse_float env) cfg ''R_DC_OUT'' None = Inr (Some r_dc_out) \<and>
      amplitude \<noteq> 0 \<and> r_ac_out \<noteq> 0 \<and> r_dc_out \<noteq> 0"
  then show "compute_dvdi env cfg path ch_meas meas ibias =
         Inr (map (map (\<lambda>z. of_real (cmod z) / of_real (amplitude / r_ac_out))) meas,
              Abs_dV_dI, map (map (\<lambda>x. x / r_dc_out)) ibias)"
    by (simp add: compute_dvdi_def divide_float_def divide_scalar_def np_abs_def comp_def)
next
  assume "\<not> (endswith ch_meas ''VI curve'' \<or> endswith ch_meas ''SingleValue'') \<and>
      \<not> endswith ch_meas ''Value''"
  then show "compute_dvdi env cfg path ch_meas meas ibias =
         Inr (map (map (\<lambda>z. of_real (cmod z))) meas, Abs_dV_dI, ibias)"
    by (simp add: compute_dvdi_def np_abs_def)
qed

theorem dvdi_branches_witness:
  "compute_dvdi example_inplane_env example_inplane_cfg ''a.hdf5'' ''DMM - SingleValue''
     [[0, 2, 6], [1, 1, 5]] [[0, 1, 2], [0, 1, 2]]
     = Inr ([[1, 3 / 2, 2], [0, 1, 2]], Delta_V_over_Delta_I, [[0, 1, 2], [0, 1, 2]]) \<and>
   compute_dvdi example_inplane_env example_inplane_cfg ''a.hdf5'' ''Lockin - Value''
     [[- 3, 4 * \<i>]] [[1, 2]]
     = Inr ([[3 / 2, 2]], Abs_dV_dI, [[1 / 5, 2 / 5]]) \<and>
   compute_dvdi example_inplane_env example_inplane_cfg ''a.hdf5'' ''Lockin - R''
     [[- 3, 4 * \<i>]] [[1, 2]]
     = Inr ([[3, 4]], Abs_dV_dI, [[1, 2]])"
proof -
  have gm: "gradient [[0, 2, 6], [1, 1, 5 :: complex]] = Inr [[2, 3, 4], [0, 2, 4]]"
    by (simp add: gradient_def gradient_row_def)
  have gi: "gradient [[0, 1, 2], [0, 1, 2 :: real]] = Inr [[1, 1, 1], [1, 1, 1]]"
    by (simp add: gradient_def gradient_row_def)
  have gain: "cfg_getfloat (parse_float example_inplane_env) example_inplane_cfg
      ''DC_AMP_GAIN'' None = Inr (Some 2)"
    by (simp add: cfg_getfloat_def example_inplane_env_def example_inplane_cfg_def)
  have r_ac: "cfg_getfloat (parse_float example_inplane_env) example_inplane_cfg
      ''R_AC_OUT'' None = Inr (Some 2)"
    by (simp add: cfg_getfloat_def example_inplane_env_def example_inplane_cfg_def)
  have r_dc: "cfg_getfloat (parse_float example_inplane_env) example_inplane_cfg
      ''R_DC_OUT'' None = Inr (Some 5)"
    by (simp add: cfg_getfloat_def example_inplane_env_def example_inplane_cfg_def)
  have amp: "instrument_config example_inplane_env ''a.hdf5'' ''Lockin - Value''
      ''Output amplitude'' = Inr 4"
    by (simp add: example_inplane_env_def)
  have dc: "compute_dvdi example_inplane_env example_inplane_cfg ''a.hdf5'' ''DMM - SingleValue''
     [[0, 2, 6], [1, 1, 5]] [[0, 1, 2], [0, 1, 2]]
     = Inr ([[1, 3 / 2, 2], [0, 1, 2]], Delta_V_over_Delta_I, [[0, 1, 2], [0, 1, 2]])"
    using dvdi_branches [where ch_meas = "''DMM - SingleValue''" and env = example_inplane_env
        and cfg = example_inplane_cfg and path = "''a.hdf5''"
        and meas = "[[0, 2, 6], [1, 1, 5]]" and ibias = "[[0, 1, 2], [0, 1, 2]]"
        and grad_meas = "[[2, 3, 4], [0, 2, 4]]" and grad_ibias = "[[1, 1, 1], [1, 1, 1]]"
        and gain = 2] gm gi gain
    by (simp add: endswith_def)
  have direct: "compute_dvdi example_inplane_env example_inplane_cfg ''a.hdf5'' ''Lockin - Value''
     [[- 3, 4 * \<i>]] [[1, 2]]
     = Inr ([[3 / 2, 2]], Abs_dV_dI, [[1 / 5, 2 / 5]])"
    using dvdi_branches [where ch_meas = "''Lockin - Value''" and env = example_inplane_env
        and cfg = example_inplane_cfg and path = "''a.hdf5''"
        and meas = "[[- 3, 4 * \<i>]]" and ibias = "[[1, 2]]"
        and amplitude = 4 and r_ac_out = 2 and r_dc_out = 5] amp r_ac r_dc
    by (simp add: endswith_def norm_mult)
  have tracer: "compute_dvdi example_inplane_env example_inplane_cfg ''a.hdf5'' ''Lockin - R''
     [[- 3, 4 * \<i>]] [[1, 2]]
     = Inr ([[3, 4]], Abs_dV_dI, [[1, 2]])"
    using dvdi_branches [where ch_meas = "''Lockin - R''" and env = example_inplane_env
        and cfg = example_inplane_cfg and path = "''a.hdf5''"
        and meas = "[[- 3, 4 * \<i>]]" and ibias = "[[1, 2]]"]
    by (simp add: endswith_def norm_mult)
  from dc direct tracer show ?thesis by (intro conjI)
qed

subsection \<open>The sign convention of the fridge\<close>


text \<open>
  C5. After the extraction of the switching currents: for the fridge \<open>vector10\<close> the
  field array is reversed and negated and both branches are reversed; for \<open>vector9\<close>
  the three arrays stay as they are; for any other fridge a warning is emitted, the
  script goes on, and the three arrays stay as they are. No warning is emitted for
  the two known fridges.
\<close>

theorem fridge_sign_convention:
  "fridge_convention fridge (bfield, ic_p, ic_n) =
     (if fridge = ''vector10'' then ([], Inr (rev (map uminus bfield), rev ic_p, rev ic_n))
      else if fridge = ''vector9'' then ([], Inr (bfield, ic_p, ic_n))
      else ([Warn (''I do not recognize fridge '' @ fridge)], Inr (bfield, ic_p, ic_n))) \<and>
   (cfg_getfloat (float_of env) cfg ''RESISTANCE_THRESHOLD'' None = Inr threshold \<and>
    extract_both env ibias dvdi threshold = Inr (ic_n, ic_p) \<and>
    map_of cfg ''FRIDGE'' = Some fridge
    \<longrightarrow> snd (squid_extract env cfg out bfield ibias dvdi) =
          Inr (if fridge = ''vector10'' then (rev (map uminus bfield), rev ic_p, rev ic_n)
               else (bfield, ic_p, ic_n)) \<and>
        ((\<exists>w. Warn w \<in> set (fst (squid_extract env cfg out bfield ibias dvdi))) \<longleftrightarrow>
           fridge \<noteq> ''vector10'' \<and> fridge \<noteq> ''vector9''))"
proof (intro conjI impI)
  show "fridge_convention fridge (bfield, ic_p, ic_n) =
     (if fridge = ''vector10'' then ([], Inr (rev (map uminus bfield), rev ic_p, rev ic_n))
      else if fridge = ''vector9'' then ([], Inr (bfield, ic_p, ic_n))
      else ([Warn (''I do not recognize fridge '' @ fridge)], Inr (bfield, ic_p, ic_n)))"
    by (simp add: fridge_convention_def ok_def rev_map)
next
  assume a: "cfg_getfloat (float_of env) cfg ''RESISTANCE_THRESHOLD'' None = Inr threshold \<and>
    extract_both env ibias dvdi threshold = Inr (ic_n, ic_p) \<and>
    map_of cfg ''FRIDGE'' = Some fridge"
  then show "snd (squid_extract env cfg out bfield ibias dvdi) =
          Inr (if fridge = ''vector10'' then (rev (map uminus bfield), rev ic_p, rev ic_n)
               else (bfield, ic_p, ic_n))"
    by (simp add: squid_extract_def fridge_convention_def cfg_item_def rev_map)
  from a show "(\<exists>w. Warn w \<in> set (fst (squid_extract env cfg out bfield ibias dvdi))) \<longleftrightarrow>
           fridge \<noteq> ''vector10'' \<and> fridge \<noteq> ''vector9''"
    by (simp add: squid_extract_def fridge_convention_def cfg_item_def)
qed

theorem fridge_sign_convention_witness:
  "snd (squid_extract example_squid_env example_squid_cfg ''out'' [1, 2, 3]
          [[0, 1, 2], [0, 1, 2], [0, 1, 2]] [[0, 0, 5], [0, 5, 5], [0, 0, 5]])
     = Inr ([- 3, - 2, - 1], [3, 1, 2], [- 3, - 1, - 2]) \<and>
   fridge_convention ''vector9'' ([1, 2, 3], [2, 1, 3], [- 2, - 1, - 3])
     = ([], Inr ([1, 2, 3], [2, 1, 3], [- 2, - 1, - 3])) \<and>
   fridge_convention ''VECTOR10'' ([1, 2, 3], [2, 1, 3], [- 2, - 1, - 3])
     = ([Warn ''I do not recognize fridge VECTOR10''], Inr ([1, 2, 3], [2, 1, 3], [- 2, - 1, - 3]))"
proof -
  have hyp: "cfg_getfloat (float_of example_squid_env) example_squid_cfg
      ''RESISTANCE_THRESHOLD'' None = Inr None \<and>
    extract_both example_squid_env [[0, 1, 2], [0, 1, 2], [0, 1, 2]]
      [[0, 0, 5], [0, 5, 5], [0, 0, 5]] None = Inr ([- 2, - 1, - 3], [2, 1, 3]) \<and>
    map_of example_squid_cfg ''FRIDGE'' = Some ''vector10''"
    by (simp add: cfg_getfloat_def example_squid_env_def example_squid_cfg_def)
  from fridge_sign_convention [THEN conjunct2, rule_format, OF hyp, THEN conjunct1]
  have a: "snd (squid_extract example_squid_env example_squid_cfg ''out'' [1, 2, 3]
          [[0, 1, 2], [0, 1, 2], [0, 1, 2]] [[0, 0, 5], [0, 5, 5], [0, 0, 5]])
     = Inr ([- 3, - 2, - 1], [3, 1, 2], [- 3, - 1, - 2])"
    by simp
  have b: "fridge_convention ''vector9'' ([1, 2, 3], [2, 1, 3], [- 2, - 1, - 3])
     = ([], Inr ([1, 2, 3], [2, 1, 3], [- 2, - 1, - 3]))"
    using fridge_sign_convention [THEN conjunct1, of "''vector9''"] by simp
  have c: "fridge_convention ''VECTOR10'' ([1, 2, 3], [2, 1, 3], [- 2, - 1, - 3])
     = ([Warn ''I do not recognize fridge VECTOR10''], Inr ([1, 2, 3], [2, 1, 3], [- 2, - 1, - 3]))"
    using fridge_sign_convention [THEN conjunct1, of "''VECTOR10''"] by simp
  from a b c show ?thesis by (intro conjI)
qed

subsection \<open>A dry run\<close>























end
